theory Spec2Isabelle
  imports Main
begin

section \<open>Data model of the Ewald correction layer (src/gromacs/mdlib/force.cpp)\<close>

text \<open>
  The scalar type \<open>real\<close> of the source is a binary floating-point type. It is kept as a type
  variable \<open>'a\<close> with the operations the code uses on it: \<open>0\<close> (class \<open>zero\<close>) and \<open>+\<close>
  (class \<open>plus\<close>). No law of arithmetic is assumed in the definitions, so every result that
  is stated for \<open>'a :: {plus, zero}\<close> also holds when \<open>+\<close> is read as a rounding addition.
\<close>

text \<open>The three Cartesian indices \<open>XX\<close>, \<open>YY\<close>, \<open>ZZ\<close> (\<open>DIM = 3\<close>).\<close>

datatype dim = XX | YY | ZZ

type_synonym 'a rvec = "'a \<times> 'a \<times> 'a"

text \<open>\<open>matrix\<close> and \<open>tensor\<close> are \<open>real[DIM][DIM]\<close>: three rows of three entries.\<close>

type_synonym 'a matrix = "'a rvec \<times> 'a rvec \<times> 'a rvec"

fun rvec_at :: "'a rvec \<Rightarrow> dim \<Rightarrow> 'a" where
  "rvec_at (x, y, z) XX = x"
| "rvec_at (x, y, z) YY = y"
| "rvec_at (x, y, z) ZZ = z"

fun mat_at :: "'a matrix \<Rightarrow> dim \<Rightarrow> dim \<Rightarrow> 'a" where
  "mat_at (a, b, c) XX j = rvec_at a j"
| "mat_at (a, b, c) YY j = rvec_at b j"
| "mat_at (a, b, c) ZZ j = rvec_at c j"

text \<open>
  Modelled from the spec: \<open>clear_mat\<close> of gromacs/math/vec.h, which is not among the source
  files. Section 4.4, \<open>clear(output)\<close>: "zero an output record's energy, dV/dlambda, and
  virial fields": every entry of the tensor becomes zero.
\<close>

definition clear_mat :: "'a::zero matrix" where
  "clear_mat = ((0, 0, 0), (0, 0, 0), (0, 0, 0))"

fun rvec_add :: "'a::plus rvec \<Rightarrow> 'a rvec \<Rightarrow> 'a rvec" where
  "rvec_add (a1, a2, a3) (b1, b2, b3) = (a1 + b1, a2 + b2, a3 + b3)"

text \<open>
  Modelled from the spec: \<open>m_add(a, b, dest)\<close> of gromacs/math/vec.h, which is not among the
  source files. Section 4.4, \<open>reduce\<close>: "element-wise summing the two virial tensors":
  \<open>dest[i][j] = a[i][j] + b[i][j]\<close>; the result is returned instead of being stored.
\<close>

fun m_add :: "'a::plus matrix \<Rightarrow> 'a matrix \<Rightarrow> 'a matrix" where
  "m_add (a1, a2, a3) (b1, b2, b3) = (rvec_add a1 b1, rvec_add a2 b2, rvec_add a3 b3)"

text \<open>
  \<open>FreeEnergyPerturbationCouplingType\<close> is declared in md_enums.h, which is not among the
  source files. The code under study indexes with \<open>Coul\<close> and \<open>Vdw\<close> only; the other members
  of the enumeration (kerneldispatch.cpp loops up to \<open>Count\<close>) are kept apart as
  \<open>OtherCoupling\<close>.
\<close>

datatype FreeEnergyPerturbationCouplingType = Coul | Vdw | OtherCoupling nat

text \<open>
  Modelled from the spec: \<open>ewald_corr_thread_t\<close> of forcerec_threading.h, which is not among
  the source files. Section 3, PerThreadCorrectionOutput: "Coulomb correction energy, LJ
  correction energy, dV/dlambda for Coulomb coupling, dV/dlambda for van der Waals coupling,
  a 3x3 virial tensor for Coulomb, a 3x3 virial tensor for LJ". The field names and the
  indexing of \<open>dvdl\<close> by the coupling type are those force.cpp uses.
\<close>

record 'a ewald_corr_thread_t =
  Vcorr_q :: 'a
  Vcorr_lj :: 'a
  dvdl :: "FreeEnergyPerturbationCouplingType \<Rightarrow> 'a"
  vir_q :: "'a matrix"
  vir_lj :: "'a matrix"

section \<open>clearEwaldThreadOutput and reduceEwaldThreadOuput\<close>

text \<open>force.cpp, lines 76-84. The record is updated in place; here it is returned.\<close>

definition clearEwaldThreadOutput :: "'a::zero ewald_corr_thread_t \<Rightarrow> 'a ewald_corr_thread_t" where
  "clearEwaldThreadOutput ewc =
     ewc\<lparr>Vcorr_q := 0,
         Vcorr_lj := 0,
         dvdl := (dvdl ewc)(Coul := 0, Vdw := 0),
         vir_q := clear_mat,
         vir_lj := clear_mat\<rparr>"

text \<open>
  The body of the loop of force.cpp, lines 92-99: \<open>dest\<close> accumulates the record \<open>src\<close> of
  thread \<open>t\<close>.
\<close>

definition accumulateThread :: "'a::plus ewald_corr_thread_t \<Rightarrow> 'a ewald_corr_thread_t \<Rightarrow> 'a ewald_corr_thread_t" where
  "accumulateThread dest src =
     dest\<lparr>Vcorr_q := Vcorr_q dest + Vcorr_q src,
          Vcorr_lj := Vcorr_lj dest + Vcorr_lj src,
          dvdl := (dvdl dest)(Coul := dvdl dest Coul + dvdl src Coul,
                              Vdw := dvdl dest Vdw + dvdl src Vdw),
          vir_q := m_add (vir_q dest) (vir_q src),
          vir_lj := m_add (vir_lj dest) (vir_lj src)\<rparr>"

text \<open>
  The loop \<open>for (int t = 1; t < nthreads; t++)\<close> of force.cpp, lines 90-100. \<open>dest\<close> is a
  reference to \<open>ewc_t[0]\<close>, so each iteration stores into index 0 of the array.
  \<open>gmx::ArrayRef::operator[]\<close> does not check its index: reading \<open>ewc_t[t]\<close> beyond the
  end of the array is undefined behaviour, which the model reports as \<open>None\<close>.
\<close>

function reduceLoop :: "int \<Rightarrow> int \<Rightarrow> 'a::plus ewald_corr_thread_t list \<Rightarrow> 'a ewald_corr_thread_t list option" where
  "reduceLoop t nthreads ewc_t =
     (if t < nthreads then
        (if 0 \<le> t \<and> nat t < length ewc_t \<and> ewc_t \<noteq> [] then
           reduceLoop (t + 1) nthreads (ewc_t[0 := accumulateThread (ewc_t ! 0) (ewc_t ! nat t)])
         else None)
      else Some ewc_t)"
  by pat_completeness auto
termination
  by (relation "measure (\<lambda>(t, nthreads, ewc_t). nat (nthreads - t))") auto

declare reduceLoop.simps [simp del]

text \<open>
  force.cpp, lines 86-101. Binding \<open>dest\<close> to \<open>ewc_t[0]\<close> of an empty array is undefined
  behaviour as well.
\<close>

definition reduceEwaldThreadOuput :: "int \<Rightarrow> 'a::plus ewald_corr_thread_t list \<Rightarrow> 'a ewald_corr_thread_t list option" where
  "reduceEwaldThreadOuput nthreads ewc_t =
     (if ewc_t = [] then None else reduceLoop 1 nthreads ewc_t)"

text \<open>
  The sum of a non-empty sequence taken from the left, in the order of the sequence: this
  is the order in which the loop adds the records of threads \<open>1, 2, ...\<close> to that of thread 0.
\<close>

fun sum_in_order :: "'a::plus list \<Rightarrow> 'a option" where
  "sum_in_order [] = None"
| "sum_in_order (x # xs) = Some (foldl (+) x xs)"

section \<open>calculateLongRangeNonbondeds\<close>

subsection \<open>State, configuration and collaborators\<close>

text \<open>
  Modelled from the spec: the slots of \<open>enerd->term\<close>. \<open>F_COUL_RECIP\<close> and \<open>F_LJ_RECIP\<close> are
  declared in a header that is not among the source files. Section 4.5: "the caller's global
  energy-term table under well-known slots (Coulomb reciprocal, LJ reciprocal)": two
  different slots of a larger table.
\<close>

datatype energy_term = F_COUL_RECIP | F_LJ_RECIP | F_OTHER nat

text \<open>
  The ways in which the function stops the run instead of returning:
  \<^item> \<open>ExceptionAsFatalError\<close>: an exception caught by
    \<open>GMX_CATCH_ALL_AND_EXIT_WITH_FATAL_ERROR\<close> (force.cpp, line 183);
  \<^item> \<open>ReciprocalPmeError\<close>: \<open>gmx_fatal(FARGS, "Error %d in reciprocal PME routine", status)\<close>
    (line 252);
  \<^item> \<open>AssertionFailed\<close>: \<open>assert(fr->n_tpi >= 0)\<close> (line 208), in a build that checks
    assertions;
  \<^item> \<open>OutOfBounds\<close>: an unchecked read of \<open>fr->ewc_t\<close> beyond its end, which is undefined
    behaviour in the source.
\<close>

datatype 'ex fatal = ExceptionAsFatalError 'ex | ReciprocalPmeError int | AssertionFailed | OutOfBounds

text \<open>
  The calls the function makes to its collaborators, in the order in which they are made.
  This log is not a variable of the source: it records the order of the calls.
  \<open>EwaldLRcorrection t ewc\<close> also records the output record of thread \<open>t\<close> as it is when
  \<open>ewald_LRcorrection\<close> is entered.
\<close>

datatype 'a event =
    WallcycleSubStart
  | EwaldLRcorrection int "'a ewald_corr_thread_t"
  | WallcycleSubStop
  | EwaldChargeCorrection
  | CloseAfterForceComputationCpu
  | WallcycleStart
  | GmxPmeDo
  | WallcycleStop
  | GmxPmeCalcEnergy
  | DoEwald
  | AddVirialContribution "'a matrix"

text \<open>
  What the function can change: \<open>fr->ewc_t\<close>, the force buffer and the virial accumulator of
  \<open>forceWithVirial\<close>, \<open>enerd->term\<close> and \<open>enerd->dvdl_lin\<close>, and the state that the
  collaborators own (\<open>fr->pmedata\<close>, \<open>fr->ewald_table\<close>, \<open>nrnb\<close>, \<open>wcycle\<close>), which is opaque
  here. The force buffer and the class \<open>ForceWithVirial\<close> are declared in headers that are
  not among the source files: their types are parameters.
\<close>

text \<open>
  \<open>fwv_force\<close> is \<open>forceWithVirial->force_\<close> and \<open>fwv_virial\<close> is the virial that
  \<open>forceWithVirial\<close> accumulates; \<open>enerd_term\<close> is \<open>enerd->term\<close> and \<open>enerd_dvdl_lin\<close> is
  \<open>enerd->dvdl_lin\<close>.
\<close>

record ('a, 'f, 'w, 'x) force_state =
  ewc_t :: "'a ewald_corr_thread_t list"
  fwv_force :: 'f
  fwv_virial :: 'w
  enerd_term :: "energy_term \<Rightarrow> 'a"
  enerd_dvdl_lin :: "FreeEnergyPerturbationCouplingType \<Rightarrow> 'a"
  collab :: 'x
  trace :: "'a event list"

text \<open>
  The read-only inputs the control flow depends on: \<open>fr->ic->eeltype\<close>, \<open>fr->ic->vdwtype\<close>,
  \<open>thisRankHasDuty(cr, DUTY_PME)\<close>, \<open>pme_run_mode(fr->pmedata) == PmeRunMode::CPU\<close>,
  \<open>haveEwaldSurfaceContribution(ir)\<close>, \<open>stepWork.computeNonbondedForces\<close>,
  \<open>stepWork.stateChanged\<close>, \<open>fr->n_tpi\<close> and \<open>fr->nthread_ewc\<close>; and whether the build
  checks \<open>assert\<close> (it does unless \<open>NDEBUG\<close> is defined).
\<close>

record ('e, 'v) run_config =
  eeltype :: 'e
  vdwtype :: 'v
  thisRankHasDutyPme :: bool
  pmeRunModeIsCpu :: bool
  haveEwaldSurfaceContribution :: bool
  computeNonbondedForces :: bool
  stateChanged :: bool
  n_tpi :: int
  nthread_ewc :: int
  assertionsEnabled :: bool

text \<open>
  The macros \<open>EEL_PME\<close>, \<open>EVDW_PME\<close>, \<open>EEL_PME_EWALD\<close> and the enumerator
  \<open>CoulombInteractionType::Ewald\<close> of md_enums.h, which is not among the source files: they
  are parameters.
\<close>

record ('e, 'v) md_enums =
  EEL_PME :: "'e \<Rightarrow> bool"
  EVDW_PME :: "'v \<Rightarrow> bool"
  EEL_PME_EWALD :: "'e \<Rightarrow> bool"
  Ewald :: 'e

text \<open>
  The arguments through which \<open>gmx_pme_do\<close> returns results (force.cpp, lines 218-248):
  the state of \<open>fr->pmedata\<close>, the force buffer, \<open>ewaldOutput.vir_q\<close>, \<open>ewaldOutput.vir_lj\<close>,
  \<open>&Vlr_q\<close>, \<open>&Vlr_lj\<close> and the two \<open>dvdl\<close> entries.
\<close>

record ('a, 'f, 'x) pme_io =
  io_collab :: 'x
  io_force :: 'f
  io_vir_q :: "'a matrix"
  io_vir_lj :: "'a matrix"
  io_energy_q :: 'a
  io_energy_lj :: 'a
  io_dvdl_q :: 'a
  io_dvdl_lj :: 'a

text \<open>
  The routines that are called but are not among the source files, as parameters. Each takes
  the current values of the arguments it may write and returns their new values; the
  read-only arguments (coordinates, charges, box, lambda, \<open>mu_tot\<close>) are fixed for one call
  of \<open>calculateLongRangeNonbondeds\<close> and are part of the function.
  \<^item> \<open>ewald_LRcorrection nthreads t force Vcorr_q dvdl\<close> either raises or returns the force
    buffer, \<open>Vcorr_q\<close> and \<open>dvdl[Coul]\<close> of the record of thread \<open>t\<close>;
  \<^item> \<open>ewald_charge_correction dvdlambda vir\<close> returns the energy, \<open>dvdlambda\<close> and \<open>vir\<close>;
  \<^item> \<open>gmx_pme_do\<close> returns its status and its output arguments;
  \<^item> \<open>gmx_pme_calc_energy\<close> returns the energy and the state of \<open>pmedata\<close>;
  \<^item> \<open>do_ewald collab force lrvir dvdlambda\<close> returns the energy and its output arguments;
  \<^item> \<open>addVirialContribution vir w\<close> is the method of \<open>ForceWithVirial\<close>, applied to the
    virial accumulator \<open>w\<close>.
\<close>

record ('a, 'f, 'w, 'x, 'ex) collaborators =
  ewald_LRcorrection :: "int \<Rightarrow> int \<Rightarrow> 'f \<Rightarrow> 'a \<Rightarrow> 'a \<Rightarrow> 'ex + ('f \<times> 'a \<times> 'a)"
  ewald_charge_correction :: "'a \<Rightarrow> 'a matrix \<Rightarrow> 'a \<times> 'a \<times> 'a matrix"
  gmx_pme_do :: "('a, 'f, 'x) pme_io \<Rightarrow> int \<times> ('a, 'f, 'x) pme_io"
  gmx_pme_calc_energy :: "'x \<Rightarrow> 'a \<times> 'x"
  do_ewald :: "'x \<Rightarrow> 'f \<Rightarrow> 'a matrix \<Rightarrow> 'a \<Rightarrow> 'a \<times> 'x \<times> 'f \<times> 'a matrix \<times> 'a"
  addVirialContribution :: "'a matrix \<Rightarrow> 'w \<Rightarrow> 'w"

subsection \<open>The steps of the function\<close>

definition logEvent :: "'a event \<Rightarrow> ('a, 'f, 'w, 'x) force_state \<Rightarrow> ('a, 'f, 'w, 'x) force_state" where
  "logEvent e s = s\<lparr>trace := trace s @ [e]\<rparr>"

text \<open>force.cpp, lines 118-120.\<close>

definition computePmeOnCpu :: "('e, 'v) md_enums \<Rightarrow> ('e, 'v) run_config \<Rightarrow> bool" where
  "computePmeOnCpu E cfg \<longleftrightarrow>
     (EEL_PME E (eeltype cfg) \<or> EVDW_PME E (vdwtype cfg))
     \<and> thisRankHasDutyPme cfg \<and> pmeRunModeIsCpu cfg"

text \<open>The condition of the \<open>if\<close> of force.cpp, lines 127-128.\<close>

definition doLongRange :: "('e, 'v) md_enums \<Rightarrow> ('e, 'v) run_config \<Rightarrow> bool" where
  "doLongRange E cfg \<longleftrightarrow>
     (computePmeOnCpu E cfg \<or> eeltype cfg = Ewald E \<or> haveEwaldSurfaceContribution cfg)
     \<and> computeNonbondedForces cfg"

text \<open>
  One iteration of the parallel loop, force.cpp, lines 150-183: thread \<open>t > 0\<close> clears its
  record, then \<open>ewald_LRcorrection\<close> is called with the force buffer and with pointers to
  \<open>Vcorr_q\<close> and \<open>dvdl[Coul]\<close> of the record. An exception stops the run.

  Modelled from the spec: \<open>GMX_CATCH_ALL_AND_EXIT_WITH_FATAL_ERROR\<close> of
  gromacs/utility/exceptions.h, which is not among the source files. Section 4.4: "the whole
  evaluation must abort the step with a fatal error".
\<close>

definition ewaldThreadWork ::
  "('a::zero, 'f, 'w, 'x, 'ex) collaborators \<Rightarrow> int \<Rightarrow> int \<Rightarrow> ('a, 'f, 'w, 'x) force_state
   \<Rightarrow> ('ex fatal \<times> ('a, 'f, 'w, 'x) force_state) + ('a, 'f, 'w, 'x) force_state" where
  "ewaldThreadWork P nthreads t s =
     (if 0 \<le> t \<and> nat t < length (ewc_t s) then
        let s1 = (if t > 0
                  then s\<lparr>ewc_t := (ewc_t s)[nat t := clearEwaldThreadOutput (ewc_t s ! nat t)]\<rparr>
                  else s);
            ewc = ewc_t s1 ! nat t;
            s2 = logEvent (EwaldLRcorrection t ewc) s1
        in (case ewald_LRcorrection P nthreads t (fwv_force s2) (Vcorr_q ewc) (dvdl ewc Coul) of
              Inl ex \<Rightarrow> Inl (ExceptionAsFatalError ex, s2)
            | Inr (f, v, d) \<Rightarrow>
                Inr (s2\<lparr>ewc_t := (ewc_t s2)[nat t := ewc\<lparr>Vcorr_q := v, dvdl := (dvdl ewc)(Coul := d)\<rparr>],
                        fwv_force := f\<rparr>))
      else Inl (OutOfBounds, s))"

text \<open>
  \<open>#pragma omp parallel for num_threads(nthreads) schedule(static)\<close> over
  \<open>t = 0, ..., nthreads - 1\<close> (force.cpp, lines 147-184). The iterations run on different
  threads in no fixed order. The model runs them one after the other in an order \<open>sched\<close>
  that is a parameter: any enumeration of the indices exactly once. It stops at the first
  iteration that stops the run.

  An iteration is one step of the model, while the threads of the source overlap. When an
  iteration stops the run, the records and the forces of the other threads are left as the
  iterations before it in \<open>sched\<close> left them; in the source another thread may by then have
  cleared its record or written a part of its results. What is stated about a run that
  an iteration of the loop stops is therefore stated about the error, the caller's
  accumulators and the log of calls only, never about the records or the forces in the
  state it stops in.
\<close>

fun ompParallelFor :: "(int \<Rightarrow> 's \<Rightarrow> 'r + 's) \<Rightarrow> int list \<Rightarrow> 's \<Rightarrow> 'r + 's" where
  "ompParallelFor body [] s = Inr s"
| "ompParallelFor body (t # ts) s =
     (case body t s of Inl e \<Rightarrow> Inl e | Inr s' \<Rightarrow> ompParallelFor body ts s')"

definition isSchedule :: "int \<Rightarrow> int list \<Rightarrow> bool" where
  "isSchedule nthreads sched \<longleftrightarrow> distinct sched \<and> set sched = set [0..nthreads - 1]"

text \<open>force.cpp, lines 142-190: the Ewald surface term, per thread, then reduced.\<close>

definition ewaldSurfaceTerm ::
  "('a::{plus,zero}, 'f, 'w, 'x, 'ex) collaborators \<Rightarrow> ('e, 'v) run_config \<Rightarrow> int list
   \<Rightarrow> ('a, 'f, 'w, 'x) force_state
   \<Rightarrow> ('ex fatal \<times> ('a, 'f, 'w, 'x) force_state) + ('a, 'f, 'w, 'x) force_state" where
  "ewaldSurfaceTerm P cfg sched s =
     (if haveEwaldSurfaceContribution cfg then
        let nthreads = nthread_ewc cfg in
        (case ompParallelFor (ewaldThreadWork P nthreads) sched (logEvent WallcycleSubStart s) of
           Inl e \<Rightarrow> Inl e
         | Inr s1 \<Rightarrow>
             (if nthreads > 1 then
                (case reduceEwaldThreadOuput nthreads (ewc_t s1) of
                   None \<Rightarrow> Inl (OutOfBounds, s1)
                 | Some ewc' \<Rightarrow> Inr (logEvent WallcycleSubStop (s1\<lparr>ewc_t := ewc'\<rparr>)))
              else Inr (logEvent WallcycleSubStop s1)))
      else Inr s)"

text \<open>
  force.cpp, lines 192-203: \<open>ewaldOutput.Vcorr_q += ewald_charge_correction(...)\<close>, which
  also writes \<open>ewaldOutput.dvdl[Coul]\<close> and \<open>ewaldOutput.vir_q\<close>. \<open>ewaldOutput\<close> is
  \<open>fr->ewc_t[0]\<close>.
\<close>

definition ewaldChargeCorrection ::
  "('a::plus, 'f, 'w, 'x, 'ex) collaborators \<Rightarrow> ('e, 'v) md_enums \<Rightarrow> ('e, 'v) run_config
   \<Rightarrow> ('a, 'f, 'w, 'x) force_state \<Rightarrow> ('a, 'f, 'w, 'x) force_state" where
  "ewaldChargeCorrection P E cfg s =
     (if EEL_PME_EWALD E (eeltype cfg) \<and> n_tpi cfg = 0 then
        let ewaldOutput = ewc_t s ! 0;
            (e, d, v) = ewald_charge_correction P (dvdl ewaldOutput Coul) (vir_q ewaldOutput)
        in logEvent EwaldChargeCorrection
             (s\<lparr>ewc_t := (ewc_t s)[0 := ewaldOutput\<lparr>Vcorr_q := Vcorr_q ewaldOutput + e,
                                                    dvdl := (dvdl ewaldOutput)(Coul := d),
                                                    vir_q := v\<rparr>]\<rparr>)
      else s)"

text \<open>
  force.cpp, lines 215-253: the load-balancing region is closed, \<open>gmx_pme_do\<close> runs between
  \<open>wallcycle_start\<close> and \<open>wallcycle_stop\<close>, and a non-zero status is fatal. The result holds
  the local variables \<open>Vlr_q\<close> and \<open>Vlr_lj\<close>.
\<close>

definition pmeInput :: "'a \<Rightarrow> 'a \<Rightarrow> ('a, 'f, 'w, 'x) force_state \<Rightarrow> ('a, 'f, 'x) pme_io" where
  "pmeInput Vlr_q Vlr_lj s =
     (let ewaldOutput = ewc_t s ! 0
      in \<lparr>io_collab = collab s, io_force = fwv_force s,
          io_vir_q = vir_q ewaldOutput, io_vir_lj = vir_lj ewaldOutput,
          io_energy_q = Vlr_q, io_energy_lj = Vlr_lj,
          io_dvdl_q = dvdl ewaldOutput Coul, io_dvdl_lj = dvdl ewaldOutput Vdw\<rparr>)"

definition pmeOutput :: "('a, 'f, 'x) pme_io \<Rightarrow> ('a, 'f, 'w, 'x) force_state \<Rightarrow> ('a, 'f, 'w, 'x) force_state" where
  "pmeOutput io s =
     (let ewaldOutput = ewc_t s ! 0
      in s\<lparr>ewc_t := (ewc_t s)[0 := ewaldOutput
                        \<lparr>dvdl := (dvdl ewaldOutput)(Coul := io_dvdl_q io, Vdw := io_dvdl_lj io),
                         vir_q := io_vir_q io, vir_lj := io_vir_lj io\<rparr>],
           fwv_force := io_force io, collab := io_collab io\<rparr>)"

definition reciprocalPme ::
  "('a, 'f, 'w, 'x, 'ex) collaborators \<Rightarrow> 'a \<Rightarrow> 'a \<Rightarrow> ('a, 'f, 'w, 'x) force_state
   \<Rightarrow> ('ex fatal \<times> ('a, 'f, 'w, 'x) force_state) + ('a \<times> 'a \<times> ('a, 'f, 'w, 'x) force_state)" where
  "reciprocalPme P Vlr_q Vlr_lj s =
     (let s1 = logEvent GmxPmeDo (logEvent WallcycleStart (logEvent CloseAfterForceComputationCpu s));
          (status, io) = gmx_pme_do P (pmeInput Vlr_q Vlr_lj s1);
          s2 = logEvent WallcycleStop (pmeOutput io s1)
      in if status \<noteq> 0 then Inl (ReciprocalPmeError status, s2)
         else Inr (io_energy_q io, io_energy_lj io, s2))"

text \<open>force.cpp, lines 205-273.\<close>

definition pmeOnCpu ::
  "('a, 'f, 'w, 'x, 'ex) collaborators \<Rightarrow> ('e, 'v) md_enums \<Rightarrow> ('e, 'v) run_config \<Rightarrow> 'a \<Rightarrow> 'a
   \<Rightarrow> ('a, 'f, 'w, 'x) force_state
   \<Rightarrow> ('ex fatal \<times> ('a, 'f, 'w, 'x) force_state) + ('a \<times> 'a \<times> ('a, 'f, 'w, 'x) force_state)" where
  "pmeOnCpu P E cfg Vlr_q Vlr_lj s =
     (if computePmeOnCpu E cfg then
        (if assertionsEnabled cfg \<and> \<not> n_tpi cfg \<ge> 0 then Inl (AssertionFailed, s)
         else
           (case (if n_tpi cfg = 0 \<or> stateChanged cfg then reciprocalPme P Vlr_q Vlr_lj s
                  else Inr (Vlr_q, Vlr_lj, s)) of
              Inl e \<Rightarrow> Inl e
            | Inr (Vlr_q1, Vlr_lj1, s1) \<Rightarrow>
                (if n_tpi cfg > 0 then
                   let (e, x) = gmx_pme_calc_energy P (collab s1)
                   in Inr (e, Vlr_lj1, logEvent GmxPmeCalcEnergy (s1\<lparr>collab := x\<rparr>))
                 else Inr (Vlr_q1, Vlr_lj1, s1))))
      else Inr (Vlr_q, Vlr_lj, s))"

text \<open>force.cpp, lines 276-291.\<close>

definition plainEwald ::
  "('a, 'f, 'w, 'x, 'ex) collaborators \<Rightarrow> ('e, 'v) md_enums \<Rightarrow> ('e, 'v) run_config \<Rightarrow> 'a \<Rightarrow> 'a
   \<Rightarrow> ('a, 'f, 'w, 'x) force_state \<Rightarrow> 'a \<times> 'a \<times> ('a, 'f, 'w, 'x) force_state" where
  "plainEwald P E cfg Vlr_q Vlr_lj s =
     (if eeltype cfg = Ewald E then
        let ewaldOutput = ewc_t s ! 0;
            (e, x, f, v, d) = do_ewald P (collab s) (fwv_force s) (vir_q ewaldOutput) (dvdl ewaldOutput Coul)
        in (e, Vlr_lj,
            logEvent DoEwald
              (s\<lparr>ewc_t := (ewc_t s)[0 := ewaldOutput\<lparr>dvdl := (dvdl ewaldOutput)(Coul := d), vir_q := v\<rparr>],
                 fwv_force := f, collab := x\<rparr>))
      else (Vlr_q, Vlr_lj, s))"

text \<open>
  force.cpp, lines 136-137: \<open>ewaldOutput\<close> is bound to \<open>fr->ewc_t[0]\<close> and cleared.
\<close>

definition longRangeStart :: "('a::zero, 'f, 'w, 'x) force_state \<Rightarrow> ('a, 'f, 'w, 'x) force_state" where
  "longRangeStart s = s\<lparr>ewc_t := (ewc_t s)[0 := clearEwaldThreadOutput (ewc_t s ! 0)]\<rparr>"

text \<open>
  force.cpp, lines 130-291: everything the branch does before it merges its results. The
  result holds the local variables \<open>Vlr_q\<close> and \<open>Vlr_lj\<close>, which start at 0.
\<close>

definition longRangeCompute ::
  "('a::{plus,zero}, 'f, 'w, 'x, 'ex) collaborators \<Rightarrow> ('e, 'v) md_enums \<Rightarrow> ('e, 'v) run_config
   \<Rightarrow> int list \<Rightarrow> ('a, 'f, 'w, 'x) force_state
   \<Rightarrow> ('ex fatal \<times> ('a, 'f, 'w, 'x) force_state) + ('a \<times> 'a \<times> ('a, 'f, 'w, 'x) force_state)" where
  "longRangeCompute P E cfg sched s =
     (if ewc_t s = [] then Inl (OutOfBounds, s)
      else
        (case (if EEL_PME_EWALD E (eeltype cfg) \<or> EVDW_PME E (vdwtype cfg) then
                 (case ewaldSurfaceTerm P cfg sched (longRangeStart s) of
                    Inl e \<Rightarrow> Inl e
                  | Inr s1 \<Rightarrow> pmeOnCpu P E cfg 0 0 (ewaldChargeCorrection P E cfg s1))
               else Inr (0, 0, longRangeStart s)) of
           Inl e \<Rightarrow> Inl e
         | Inr (Vlr_q, Vlr_lj, s2) \<Rightarrow> Inr (plainEwald P E cfg Vlr_q Vlr_lj s2)))"

text \<open>force.cpp, lines 296-303: the results are merged into the caller's accumulators.\<close>

definition longRangeMerge ::
  "('a::plus, 'f, 'w, 'x, 'ex) collaborators \<Rightarrow> 'a \<Rightarrow> 'a \<Rightarrow> ('a, 'f, 'w, 'x) force_state
   \<Rightarrow> ('a, 'f, 'w, 'x) force_state" where
  "longRangeMerge P Vlr_q Vlr_lj s =
     (let ewaldOutput = ewc_t s ! 0;
          s1 = logEvent (AddVirialContribution (vir_q ewaldOutput))
                 (s\<lparr>fwv_virial := addVirialContribution P (vir_q ewaldOutput) (fwv_virial s)\<rparr>);
          s2 = logEvent (AddVirialContribution (vir_lj ewaldOutput))
                 (s1\<lparr>fwv_virial := addVirialContribution P (vir_lj ewaldOutput) (fwv_virial s1)\<rparr>);
          s3 = s2\<lparr>enerd_dvdl_lin := (enerd_dvdl_lin s2)
                     (Coul := enerd_dvdl_lin s2 Coul + dvdl ewaldOutput Coul)\<rparr>;
          s4 = s3\<lparr>enerd_dvdl_lin := (enerd_dvdl_lin s3)
                     (Vdw := enerd_dvdl_lin s3 Vdw + dvdl ewaldOutput Vdw)\<rparr>;
          s5 = s4\<lparr>enerd_term := (enerd_term s4)(F_COUL_RECIP := Vlr_q + Vcorr_q ewaldOutput)\<rparr>
      in s5\<lparr>enerd_term := (enerd_term s5)(F_LJ_RECIP := Vlr_lj + Vcorr_lj ewaldOutput)\<rparr>)"

text \<open>
  force.cpp, lines 103-326. The output to the debug file (lines 305-325) changes none of
  the variables and is left out.
\<close>

definition calculateLongRangeNonbondeds ::
  "('a::{plus,zero}, 'f, 'w, 'x, 'ex) collaborators \<Rightarrow> ('e, 'v) md_enums \<Rightarrow> ('e, 'v) run_config
   \<Rightarrow> int list \<Rightarrow> ('a, 'f, 'w, 'x) force_state
   \<Rightarrow> ('ex fatal \<times> ('a, 'f, 'w, 'x) force_state) + ('a, 'f, 'w, 'x) force_state" where
  "calculateLongRangeNonbondeds P E cfg sched s =
     (if doLongRange E cfg then
        (case longRangeCompute P E cfg sched s of
           Inl e \<Rightarrow> Inl e
         | Inr (Vlr_q, Vlr_lj, s1) \<Rightarrow> Inr (longRangeMerge P Vlr_q Vlr_lj s1))
      else Inr s)"

subsection \<open>Notions used to state the properties\<close>

text \<open>The caller's accumulators: the virial, the energy terms and \<open>dvdl_lin\<close>.\<close>

definition accumulatorsUnchanged :: "('a, 'f, 'w, 'x) force_state \<Rightarrow> ('a, 'f, 'w, 'x) force_state \<Rightarrow> bool" where
  "accumulatorsUnchanged s s' \<longleftrightarrow>
     fwv_virial s' = fwv_virial s \<and> enerd_term s' = enerd_term s \<and> enerd_dvdl_lin s' = enerd_dvdl_lin s"

text \<open>The state in which a call ends, whether it returns or stops the run.\<close>

fun endState :: "('r \<times> 's) + 's \<Rightarrow> 's" where
  "endState (Inl (e, s)) = s"
| "endState (Inr s) = s"

fun endState3 :: "('r \<times> 's) + ('a \<times> 'b \<times> 's) \<Rightarrow> 's" where
  "endState3 (Inl (e, s)) = s"
| "endState3 (Inr (a, b, s)) = s"

text \<open>The calls made since the state \<open>s\<close>.\<close>

definition newEvents :: "('a, 'f, 'w, 'x) force_state \<Rightarrow> ('a, 'f, 'w, 'x) force_state \<Rightarrow> 'a event list" where
  "newEvents s s' = drop (length (trace s)) (trace s')"

text \<open>All six fields of a per-thread record are zero.\<close>

definition isCleared :: "'a::zero ewald_corr_thread_t \<Rightarrow> bool" where
  "isCleared ewc \<longleftrightarrow>
     Vcorr_q ewc = 0 \<and> Vcorr_lj ewc = 0 \<and> dvdl ewc Coul = 0 \<and> dvdl ewc Vdw = 0
     \<and> vir_q ewc = clear_mat \<and> vir_lj ewc = clear_mat"



text \<open>
  Every call of \<open>gmx_pme_do\<close> in a log comes strictly after a call of
  \<open>ddBalanceRegionHandler.closeAfterForceComputationCpu\<close> in the same log.
\<close>

definition closedBeforePme :: "'a event list \<Rightarrow> bool" where
  "closedBeforePme evs \<longleftrightarrow>
     (\<forall>i < length evs. evs ! i = GmxPmeDo \<longrightarrow> (\<exists>j < i. evs ! j = CloseAfterForceComputationCpu))"

text \<open>
  The log of \<open>s'\<close> is the log of \<open>s\<close> followed by calls that satisfy \<open>Q\<close>; \<open>appendClosed Q\<close>
  holds of the properties of logs that are kept when logs are put one after the other.
\<close>

definition grows :: "('a event list \<Rightarrow> bool) \<Rightarrow> ('a, 'f, 'w, 'x) force_state \<Rightarrow> ('a, 'f, 'w, 'x) force_state \<Rightarrow> bool" where
  "grows Q s s' \<longleftrightarrow> (\<exists>evs. trace s' = trace s @ evs \<and> Q evs)"

definition appendClosed :: "('a event list \<Rightarrow> bool) \<Rightarrow> bool" where
  "appendClosed Q \<longleftrightarrow> Q [] \<and> (\<forall>xs ys. Q xs \<longrightarrow> Q ys \<longrightarrow> Q (xs @ ys))"

text \<open>
  The condition under which the parallel loop over \<open>ewald_LRcorrection\<close> is reached
  (force.cpp, lines 127-128, 139 and 142).
\<close>

definition dispatchesLRcorrection :: "('e, 'v) md_enums \<Rightarrow> ('e, 'v) run_config \<Rightarrow> bool" where
  "dispatchesLRcorrection E cfg \<longleftrightarrow>
     doLongRange E cfg
     \<and> (EEL_PME_EWALD E (eeltype cfg) \<or> EVDW_PME E (vdwtype cfg))
     \<and> haveEwaldSurfaceContribution cfg"

text \<open>
  The condition under which \<open>ewald_charge_correction\<close> is reached (force.cpp, lines 127-128,
  139 and 192).
\<close>

definition appliesChargeCorrection :: "('e, 'v) md_enums \<Rightarrow> ('e, 'v) run_config \<Rightarrow> bool" where
  "appliesChargeCorrection E cfg \<longleftrightarrow>
     doLongRange E cfg
     \<and> (EEL_PME_EWALD E (eeltype cfg) \<or> EVDW_PME E (vdwtype cfg))
     \<and> EEL_PME_EWALD E (eeltype cfg) \<and> n_tpi cfg = 0"

subsection \<open>A worked instance\<close>

text \<open>
  A run over the integers with two threads. The interaction types are numbered 0 (cut-off),
  1 (PME) and 2 (plain Ewald); forces are a list to which each routine appends a mark; the
  virial accumulator is a matrix to which \<open>addVirialContribution\<close> adds.
\<close>

text \<open>A per-thread record whose fields are multiples of \<open>k\<close>.\<close>

definition exampleRecord :: "int \<Rightarrow> int ewald_corr_thread_t" where
  "exampleRecord k =
     \<lparr>Vcorr_q = k, Vcorr_lj = 10 * k,
      dvdl = (\<lambda>c. if c = Coul then 2 * k else if c = Vdw then 3 * k else 7),
      vir_q = ((k, 0, 0), (0, k, 0), (0, 0, k)),
      vir_lj = ((0, k, 0), (k, 0, 0), (0, 0, 5 * k))\<rparr>"

definition exampleEnums :: "(nat, nat) md_enums" where
  "exampleEnums =
     \<lparr>EEL_PME = (\<lambda>e. e = 1), EVDW_PME = (\<lambda>v. v = 1),
      EEL_PME_EWALD = (\<lambda>e. e = 1 \<or> e = 2), Ewald = 2\<rparr>"

definition exampleConfig :: "(nat, nat) run_config" where
  "exampleConfig =
     \<lparr>eeltype = 1, vdwtype = 0, thisRankHasDutyPme = True, pmeRunModeIsCpu = True,
      haveEwaldSurfaceContribution = True, computeNonbondedForces = True,
      stateChanged = True, n_tpi = 0, nthread_ewc = 2, assertionsEnabled = True\<rparr>"

definition exampleCollaborators :: "(int, int list, int matrix, unit, string) collaborators" where
  "exampleCollaborators =
     \<lparr>ewald_LRcorrection = (\<lambda>nthreads t f v d. Inr (f @ [t], v + 1 + t, d + 2)),
      ewald_charge_correction = (\<lambda>d v. (5, d + 1, m_add v ((1, 0, 0), (0, 1, 0), (0, 0, 1)))),
      gmx_pme_do = (\<lambda>io. (0, io\<lparr>io_energy_q := 11, io_energy_lj := 13,
                                  io_vir_lj := ((0, 0, 2), (0, 0, 0), (2, 0, 0))\<rparr>)),
      gmx_pme_calc_energy = (\<lambda>x. (17, x)),
      do_ewald = (\<lambda>x f v d. (19, x, f, v, d)),
      addVirialContribution = (\<lambda>v w. m_add w v)\<rparr>"

definition exampleState :: "(int, int list, int matrix, unit) force_state" where
  "exampleState =
     \<lparr>ewc_t = [exampleRecord 1, exampleRecord 2], fwv_force = [], fwv_virial = clear_mat,
      enerd_term = (\<lambda>k. 100), enerd_dvdl_lin = (\<lambda>c. 200), collab = (), trace = []\<rparr>"

text \<open>
  Variants of the instance: \<open>ewald_LRcorrection\<close> raises on thread 1; \<open>gmx_pme_do\<close> returns
  status 3; the step does not compute nonbonded forces.
\<close>

definition raisingCollaborators :: "(int, int list, int matrix, unit, string) collaborators" where
  "raisingCollaborators =
     exampleCollaborators
       \<lparr>ewald_LRcorrection := (\<lambda>nthreads t f v d. if t = 1 then Inl ''bad exclusion''
                                                  else Inr (f @ [t], v + 1 + t, d + 2))\<rparr>"

definition failingPmeCollaborators :: "(int, int list, int matrix, unit, string) collaborators" where
  "failingPmeCollaborators = exampleCollaborators\<lparr>gmx_pme_do := (\<lambda>io. (3, io))\<rparr>"

definition noNonbondedConfig :: "(nat, nat) run_config" where
  "noNonbondedConfig = exampleConfig\<lparr>computeNonbondedForces := False\<rparr>"

text \<open>
  Two more variants, in which the long-range branch is taken: a run without an Ewald surface
  contribution, and a run with cut-off electrostatics and PME for Van der Waals, to which
  the net-charge correction does not apply.
\<close>

definition noSurfaceConfig :: "(nat, nat) run_config" where
  "noSurfaceConfig = exampleConfig\<lparr>haveEwaldSurfaceContribution := False\<rparr>"

definition ljPmeConfig :: "(nat, nat) run_config" where
  "ljPmeConfig = exampleConfig\<lparr>eeltype := 0, vdwtype := 1\<rparr>"

section \<open>The reduction over threads\<close>

lemma reduceLoop_fold:
  "1 \<le> t \<Longrightarrow> nat nthreads \<le> length ewc \<Longrightarrow> ewc \<noteq> [] \<Longrightarrow>
   reduceLoop t nthreads ewc =
     Some (ewc[0 := foldl accumulateThread (ewc ! 0) (drop (nat t) (take (nat nthreads) ewc))])"
proof (induction t nthreads ewc rule: reduceLoop.induct)
  case (1 t nthreads ewc)
  show ?case
  proof (cases "t < nthreads")
    case False
    then have "drop (nat t) (take (nat nthreads) ewc) = []" by simp
    with False show ?thesis by (simp add: reduceLoop.simps [of t])
  next
    case True
    let ?e = "ewc[0 := accumulateThread (ewc ! 0) (ewc ! nat t)]"
    from True "1.prems" have inr: "0 \<le> t" "nat t < length ewc" "nat t < nat nthreads" by auto
    have tk: "take (nat nthreads) ?e = (take (nat nthreads) ewc)[0 := accumulateThread (ewc ! 0) (ewc ! nat t)]"
      by (simp add: take_update_swap)
    have dr: "drop (nat (t + 1)) (take (nat nthreads) ?e) = drop (nat (t + 1)) (take (nat nthreads) ewc)"
      using "1.prems"(1) by (simp add: tk)
    have cons: "drop (nat t) (take (nat nthreads) ewc) = ewc ! nat t # drop (nat (t + 1)) (take (nat nthreads) ewc)"
      using inr by (simp add: Cons_nth_drop_Suc [symmetric] nat_add_distrib)
    have ih: "reduceLoop (t + 1) nthreads ?e =
        Some (?e[0 := foldl accumulateThread (?e ! 0) (drop (nat (t + 1)) (take (nat nthreads) ?e))])"
      using "1.IH" [OF True] inr "1.prems" by simp
    have hd0: "?e ! 0 = accumulateThread (ewc ! 0) (ewc ! nat t)"
      using "1.prems"(3) by simp
    show ?thesis
      using True inr "1.prems"(3) ih
      by (simp add: reduceLoop.simps [of t] dr cons hd0)
  qed
qed

lemma foldl_acc_Vcorr_q: "Vcorr_q (foldl accumulateThread d xs) = foldl (+) (Vcorr_q d) (map Vcorr_q xs)"
  by (induction xs arbitrary: d) (simp_all add: accumulateThread_def)

lemma foldl_acc_Vcorr_lj: "Vcorr_lj (foldl accumulateThread d xs) = foldl (+) (Vcorr_lj d) (map Vcorr_lj xs)"
  by (induction xs arbitrary: d) (simp_all add: accumulateThread_def)

lemma foldl_acc_dvdl_Coul: "dvdl (foldl accumulateThread d xs) Coul = foldl (+) (dvdl d Coul) (map (\<lambda>r. dvdl r Coul) xs)"
  by (induction xs arbitrary: d) (simp_all add: accumulateThread_def)

lemma foldl_acc_dvdl_Vdw: "dvdl (foldl accumulateThread d xs) Vdw = foldl (+) (dvdl d Vdw) (map (\<lambda>r. dvdl r Vdw) xs)"
  by (induction xs arbitrary: d) (simp_all add: accumulateThread_def)

lemma foldl_acc_dvdl_other: "dvdl (foldl accumulateThread d xs) (OtherCoupling k) = dvdl d (OtherCoupling k)"
  by (induction xs arbitrary: d) (simp_all add: accumulateThread_def)

lemma rvec_at_add: "rvec_at (rvec_add a b) j = rvec_at a j + rvec_at b j"
  by (cases "(a, b)" rule: rvec_add.cases; cases j) simp_all

lemma mat_at_m_add: "mat_at (m_add a b) i j = mat_at a i j + mat_at b i j"
  by (cases "(a, b)" rule: m_add.cases; cases i) (simp_all add: rvec_at_add)

lemma foldl_acc_vir_q: "mat_at (vir_q (foldl accumulateThread d xs)) i j = foldl (+) (mat_at (vir_q d) i j) (map (\<lambda>r. mat_at (vir_q r) i j) xs)"
  by (induction xs arbitrary: d) (simp_all add: accumulateThread_def mat_at_m_add)

lemma foldl_acc_vir_lj: "mat_at (vir_lj (foldl accumulateThread d xs)) i j = foldl (+) (mat_at (vir_lj d) i j) (map (\<lambda>r. mat_at (vir_lj r) i j) xs)"
  by (induction xs arbitrary: d) (simp_all add: accumulateThread_def mat_at_m_add)

lemma sum_in_order_take:
  "xs \<noteq> [] \<Longrightarrow> 0 < n \<Longrightarrow> sum_in_order (map f (take n xs)) = Some (foldl (+) (f (xs ! 0)) (map f (drop 1 (take n xs))))"
  by (cases xs; cases n) simp_all

lemma sum_in_order_sum_list:
  fixes xs :: "'a::monoid_add list"
  shows "xs \<noteq> [] \<Longrightarrow> sum_in_order xs = Some (sum_list xs)"
proof (cases xs)
  case Nil
  assume "xs \<noteq> []" with Nil show ?thesis by simp
next
  case (Cons x ys)
  have "foldl (+) a ys = a + sum_list ys" for a
    by (induction ys arbitrary: a) (simp_all add: add.assoc)
  with Cons show ?thesis by simp
qed

text \<open>
  Claim C2. For every thread count \<open>nthreads \<ge> 1\<close> and every array that holds at least
  \<open>nthreads\<close> per-thread records, \<open>reduceEwaldThreadOuput nthreads ewc\<close> returns, and in the
  array it leaves the record at index 0 holds in each field (\<open>Vcorr_q\<close>, \<open>Vcorr_lj\<close>,
  \<open>dvdl[Coul]\<close>, \<open>dvdl[Vdw]\<close>, and every entry of \<open>vir_q\<close> and of \<open>vir_lj\<close>) the sum of that
  field over the first \<open>nthreads\<close> records, added in the order of the thread index. By
  \<open>sum_in_order_sum_list\<close> this is the usual sum wherever addition is associative with
  neutral element 0.
\<close>

theorem reduceEwaldThreadOuput_sums:
  fixes ewc :: "'a::plus ewald_corr_thread_t list"
  assumes "1 \<le> nthreads" and "nat nthreads \<le> length ewc"
  shows "\<exists>ewc'. reduceEwaldThreadOuput nthreads ewc = Some ewc'
     \<and> sum_in_order (map Vcorr_q (take (nat nthreads) ewc)) = Some (Vcorr_q (ewc' ! 0))
     \<and> sum_in_order (map Vcorr_lj (take (nat nthreads) ewc)) = Some (Vcorr_lj (ewc' ! 0))
     \<and> sum_in_order (map (\<lambda>r. dvdl r Coul) (take (nat nthreads) ewc)) = Some (dvdl (ewc' ! 0) Coul)
     \<and> sum_in_order (map (\<lambda>r. dvdl r Vdw) (take (nat nthreads) ewc)) = Some (dvdl (ewc' ! 0) Vdw)
     \<and> (\<forall>i j. sum_in_order (map (\<lambda>r. mat_at (vir_q r) i j) (take (nat nthreads) ewc))
              = Some (mat_at (vir_q (ewc' ! 0)) i j))
     \<and> (\<forall>i j. sum_in_order (map (\<lambda>r. mat_at (vir_lj r) i j) (take (nat nthreads) ewc))
              = Some (mat_at (vir_lj (ewc' ! 0)) i j))"
proof -
  from assms have ne: "ewc \<noteq> []" and pos: "0 < nat nthreads" by auto
  define rest where "rest = drop 1 (take (nat nthreads) ewc)"
  define d where "d = foldl accumulateThread (ewc ! 0) rest"
  have red: "reduceEwaldThreadOuput nthreads ewc = Some (ewc[0 := d])"
    using reduceLoop_fold [of 1 nthreads ewc] assms ne
    by (simp add: reduceEwaldThreadOuput_def d_def rest_def)
  have at0: "ewc[0 := d] ! 0 = d" using ne by simp
  have sums: "sum_in_order (map f (take (nat nthreads) ewc))
      = Some (foldl (+) (f (ewc ! 0)) (map f rest))" for f :: "'a ewald_corr_thread_t \<Rightarrow> 'a"
    unfolding rest_def by (rule sum_in_order_take [OF ne pos])
  have "sum_in_order (map Vcorr_q (take (nat nthreads) ewc)) = Some (Vcorr_q d)"
    and "sum_in_order (map Vcorr_lj (take (nat nthreads) ewc)) = Some (Vcorr_lj d)"
    and "sum_in_order (map (\<lambda>r. dvdl r Coul) (take (nat nthreads) ewc)) = Some (dvdl d Coul)"
    and "sum_in_order (map (\<lambda>r. dvdl r Vdw) (take (nat nthreads) ewc)) = Some (dvdl d Vdw)"
    and "\<And>i j. sum_in_order (map (\<lambda>r. mat_at (vir_q r) i j) (take (nat nthreads) ewc))
              = Some (mat_at (vir_q d) i j)"
    and "\<And>i j. sum_in_order (map (\<lambda>r. mat_at (vir_lj r) i j) (take (nat nthreads) ewc))
              = Some (mat_at (vir_lj d) i j)"
    by (simp_all only: sums d_def foldl_acc_Vcorr_q foldl_acc_Vcorr_lj
        foldl_acc_dvdl_Coul foldl_acc_dvdl_Vdw foldl_acc_vir_q foldl_acc_vir_lj)
  then show ?thesis
    unfolding red by (simp only: at0 option.inject simp_thms ex_simps)
qed

theorem reduceEwaldThreadOuput_sums_witness:
  "1 \<le> (3::int) \<and> nat 3 \<le> length [exampleRecord 1, exampleRecord 2, exampleRecord 4]
   \<and> (\<exists>ewc'. reduceEwaldThreadOuput 3 [exampleRecord 1, exampleRecord 2, exampleRecord 4] = Some ewc'
        \<and> Vcorr_q (ewc' ! 0) = 7 \<and> Vcorr_lj (ewc' ! 0) = 70
        \<and> dvdl (ewc' ! 0) Coul = 14 \<and> dvdl (ewc' ! 0) Vdw = 21
        \<and> mat_at (vir_q (ewc' ! 0)) XX XX = 7 \<and> mat_at (vir_q (ewc' ! 0)) XX YY = 0
        \<and> mat_at (vir_lj (ewc' ! 0)) ZZ ZZ = 35 \<and> mat_at (vir_lj (ewc' ! 0)) YY XX = 7)"
proof -
  let ?ewc = "[exampleRecord 1, exampleRecord 2, exampleRecord 4]"
  have h1: "1 \<le> (3::int)" and h2: "nat 3 \<le> length ?ewc" by simp_all
  from reduceEwaldThreadOuput_sums [OF h1 h2] obtain ewc' where
    red: "reduceEwaldThreadOuput 3 ?ewc = Some ewc'"
    and scalars: "sum_in_order (map Vcorr_q (take (nat 3) ?ewc)) = Some (Vcorr_q (ewc' ! 0))"
      "sum_in_order (map Vcorr_lj (take (nat 3) ?ewc)) = Some (Vcorr_lj (ewc' ! 0))"
      "sum_in_order (map (\<lambda>r. dvdl r Coul) (take (nat 3) ?ewc)) = Some (dvdl (ewc' ! 0) Coul)"
      "sum_in_order (map (\<lambda>r. dvdl r Vdw) (take (nat 3) ?ewc)) = Some (dvdl (ewc' ! 0) Vdw)"
    and vq: "\<And>i j. sum_in_order (map (\<lambda>r. mat_at (vir_q r) i j) (take (nat 3) ?ewc))
                = Some (mat_at (vir_q (ewc' ! 0)) i j)"
    and vlj: "\<And>i j. sum_in_order (map (\<lambda>r. mat_at (vir_lj r) i j) (take (nat 3) ?ewc))
                = Some (mat_at (vir_lj (ewc' ! 0)) i j)"
    by blast
  from scalars vq [of XX XX] vq [of XX YY] vlj [of ZZ ZZ] vlj [of YY XX]
  have "Vcorr_q (ewc' ! 0) = 7 \<and> Vcorr_lj (ewc' ! 0) = 70
        \<and> dvdl (ewc' ! 0) Coul = 14 \<and> dvdl (ewc' ! 0) Vdw = 21
        \<and> mat_at (vir_q (ewc' ! 0)) XX XX = 7 \<and> mat_at (vir_q (ewc' ! 0)) XX YY = 0
        \<and> mat_at (vir_lj (ewc' ! 0)) ZZ ZZ = 35 \<and> mat_at (vir_lj (ewc' ! 0)) YY XX = 7"
    by (simp add: exampleRecord_def)
  with red h1 h2 show ?thesis by blast
qed

text \<open>
  Claim C10. \<open>reduceEwaldThreadOuput\<close> writes the record at index 0 only: for every thread
  count \<open>nthreads \<ge> 1\<close> and every array that holds at least \<open>nthreads\<close> records, the call
  returns an array of the same length in which every record at an index \<open>t \<ge> 1\<close>, so in
  particular at \<open>1, ..., nthreads - 1\<close>, is the record that was there before the call.
\<close>

theorem reduceEwaldThreadOuput_frame:
  fixes ewc :: "'a::plus ewald_corr_thread_t list"
  assumes "1 \<le> nthreads" and "nat nthreads \<le> length ewc"
  shows "\<exists>ewc'. reduceEwaldThreadOuput nthreads ewc = Some ewc'
     \<and> length ewc' = length ewc
     \<and> (\<forall>t. 1 \<le> t \<and> t < length ewc \<longrightarrow> ewc' ! t = ewc ! t)"
proof -
  from assms have ne: "ewc \<noteq> []" by auto
  show ?thesis
    using reduceLoop_fold [of 1 nthreads ewc] assms ne by (simp add: reduceEwaldThreadOuput_def)
qed


theorem reduceEwaldThreadOuput_frame_witness:
  "1 \<le> (3::int) \<and> nat 3 \<le> length [exampleRecord 1, exampleRecord 2, exampleRecord 4]
   \<and> (\<exists>ewc'. reduceEwaldThreadOuput 3 [exampleRecord 1, exampleRecord 2, exampleRecord 4] = Some ewc'
        \<and> length ewc' = 3 \<and> ewc' ! 1 = exampleRecord 2 \<and> ewc' ! 2 = exampleRecord 4)"
  using reduceEwaldThreadOuput_frame [of 3 "[exampleRecord 1, exampleRecord 2, exampleRecord 4]"]
  by auto

section \<open>The caller's accumulators before the merge\<close>

lemma logEvent_fields [simp]:
  "ewc_t (logEvent e s) = ewc_t s"
  "fwv_force (logEvent e s) = fwv_force s"
  "fwv_virial (logEvent e s) = fwv_virial s"
  "enerd_term (logEvent e s) = enerd_term s"
  "enerd_dvdl_lin (logEvent e s) = enerd_dvdl_lin s"
  "collab (logEvent e s) = collab s"
  "trace (logEvent e s) = trace s @ [e]"
  by (simp_all add: logEvent_def)

lemma accumulatorsUnchanged_refl: "accumulatorsUnchanged s s"
  by (simp add: accumulatorsUnchanged_def)

lemma accumulatorsUnchanged_trans:
  "accumulatorsUnchanged a b \<Longrightarrow> accumulatorsUnchanged b c \<Longrightarrow> accumulatorsUnchanged a c"
  by (simp add: accumulatorsUnchanged_def)

lemma ompParallelFor_rel:
  assumes refl: "\<And>s. R s s"
    and trans: "\<And>a b c. R a b \<Longrightarrow> R b c \<Longrightarrow> R a c"
    and step: "\<And>t s. R s (endState (body t s))"
  shows "R s (endState (ompParallelFor body ts s))"
proof (induction ts arbitrary: s)
  case Nil
  show ?case by (simp add: refl)
next
  case (Cons t ts)
  show ?case
  proof (cases "body t s")
    case (Inl x)
    with step [of s t] show ?thesis by simp
  next
    case (Inr s')
    with step [of s t] have "R s s'" by simp
    from trans [OF this Cons.IH [of s']] Inr show ?thesis by simp
  qed
qed

lemma ewaldThreadWork_acc: "accumulatorsUnchanged s (endState (ewaldThreadWork P n t s))"
  by (simp add: ewaldThreadWork_def accumulatorsUnchanged_def Let_def split: sum.splits prod.splits)

lemma ewaldSurfaceTerm_acc: "accumulatorsUnchanged s (endState (ewaldSurfaceTerm P cfg sched s))"
proof -
  let ?s0 = "logEvent WallcycleSubStart s"
  have "accumulatorsUnchanged ?s0 (endState (ompParallelFor (ewaldThreadWork P (nthread_ewc cfg)) sched ?s0))"
    by (rule ompParallelFor_rel [where R = accumulatorsUnchanged])
       (auto intro: accumulatorsUnchanged_refl accumulatorsUnchanged_trans ewaldThreadWork_acc)
  then show ?thesis
    by (auto simp add: ewaldSurfaceTerm_def accumulatorsUnchanged_def Let_def split: sum.splits option.splits)
qed

lemma ewaldChargeCorrection_acc: "accumulatorsUnchanged s (ewaldChargeCorrection P E cfg s)"
  by (simp add: ewaldChargeCorrection_def accumulatorsUnchanged_def Let_def split: prod.splits)

lemma reciprocalPme_acc: "accumulatorsUnchanged s (endState3 (reciprocalPme P vq vlj s))"
  by (simp add: reciprocalPme_def pmeOutput_def accumulatorsUnchanged_def Let_def split: prod.splits)

lemma pmeOnCpu_acc: "accumulatorsUnchanged s (endState3 (pmeOnCpu P E cfg vq vlj s))"
  using reciprocalPme_acc [of s P vq vlj]
  by (auto simp add: pmeOnCpu_def accumulatorsUnchanged_def Let_def split: sum.splits prod.splits)

lemma plainEwald_acc: "accumulatorsUnchanged s (snd (snd (plainEwald P E cfg vq vlj s)))"
  by (simp add: plainEwald_def accumulatorsUnchanged_def Let_def split: prod.splits)

lemma longRangeStart_acc: "accumulatorsUnchanged s (longRangeStart s)"
  by (simp add: longRangeStart_def accumulatorsUnchanged_def)

lemma longRangeCompute_rel:
  assumes refl: "\<And>s. R s s"
    and trans: "\<And>a b c. R a b \<Longrightarrow> R b c \<Longrightarrow> R a c"
    and start: "R s (longRangeStart s)"
    and surf: "ewc_t s \<noteq> [] \<Longrightarrow> EEL_PME_EWALD E (eeltype cfg) \<or> EVDW_PME E (vdwtype cfg) \<Longrightarrow>
       R (longRangeStart s) (endState (ewaldSurfaceTerm P cfg sched (longRangeStart s)))"
    and charge: "\<And>s. R s (ewaldChargeCorrection P E cfg s)"
    and pme: "\<And>s. R s (endState3 (pmeOnCpu P E cfg 0 0 s))"
    and ewald: "\<And>s vq vlj. R s (snd (snd (plainEwald P E cfg vq vlj s)))"
  shows "R s (endState3 (longRangeCompute P E cfg sched s))"
proof (cases "ewc_t s = []")
  case True
  then show ?thesis by (simp add: longRangeCompute_def refl)
next
  case ne: False
  have ewald': "R s s2 \<Longrightarrow> plainEwald P E cfg vq vlj s2 = (a, b, s3) \<Longrightarrow> R s s3" for s2 vq vlj a b s3
    using ewald [of s2 vq vlj] by (auto intro: trans)
  show ?thesis
  proof (cases "EEL_PME_EWALD E (eeltype cfg) \<or> EVDW_PME E (vdwtype cfg)")
    case False
    obtain a b s3 where pe: "plainEwald P E cfg 0 0 (longRangeStart s) = (a, b, s3)"
      by (cases "plainEwald P E cfg 0 0 (longRangeStart s)") auto
    from ewald' [OF start pe] ne False pe show ?thesis
      by (simp add: longRangeCompute_def)
  next
    case True
    have a: "R s (endState (ewaldSurfaceTerm P cfg sched (longRangeStart s)))"
      by (rule trans [OF start surf [OF ne True]])
    show ?thesis
    proof (cases "ewaldSurfaceTerm P cfg sched (longRangeStart s)")
      case (Inl x)
      obtain e s' where x: "x = (e, s')" by (cases x)
      with a Inl ne True show ?thesis by (simp add: longRangeCompute_def)
    next
      case (Inr s1)
      with a have s1: "R s s1" by simp
      let ?p = "pmeOnCpu P E cfg 0 0 (ewaldChargeCorrection P E cfg s1)"
      have b: "R s (endState3 ?p)"
        by (rule trans [OF s1 trans [OF charge pme]])
      show ?thesis
      proof (cases ?p)
        case (Inl x)
        obtain e s' where x: "x = (e, s')" by (cases x)
        with b Inl Inr ne True show ?thesis by (simp add: longRangeCompute_def)
      next
        case pr: (Inr y)
        obtain vq vlj s2 where y: "y = (vq, vlj, s2)" by (cases y)
        obtain a' b' s3 where pe: "plainEwald P E cfg vq vlj s2 = (a', b', s3)"
          by (cases "plainEwald P E cfg vq vlj s2") auto
        from b pr y have "R s s2" by simp
        from ewald' [OF this pe] pr y Inr ne True pe show ?thesis
          by (simp add: longRangeCompute_def)
      qed
    qed
  qed
qed

lemma calculate_rel:
  assumes trans: "\<And>a b c. R a b \<Longrightarrow> R b c \<Longrightarrow> R a c"
    and refl: "\<And>s. R s s"
    and compute: "doLongRange E cfg \<Longrightarrow> R s (endState3 (longRangeCompute P E cfg sched s))"
    and merge: "\<And>s vq vlj. R s (longRangeMerge P vq vlj s)"
  shows "R s (endState (calculateLongRangeNonbondeds P E cfg sched s))"
proof (cases "doLongRange E cfg")
  case False
  then show ?thesis by (simp add: calculateLongRangeNonbondeds_def refl)
next
  case True
  show ?thesis
  proof (cases "longRangeCompute P E cfg sched s")
    case (Inl x)
    obtain e s' where "x = (e, s')" by (cases x)
    with compute [OF True] Inl True show ?thesis by (simp add: calculateLongRangeNonbondeds_def)
  next
    case (Inr y)
    obtain vq vlj s1 where "y = (vq, vlj, s1)" by (cases y)
    with compute [OF True] Inr True trans [OF _ merge [of s1 vq vlj], of s] show ?thesis
      by (simp add: calculateLongRangeNonbondeds_def)
  qed
qed

lemma longRangeCompute_acc: "accumulatorsUnchanged s (endState3 (longRangeCompute P E cfg sched s))"
  by (rule longRangeCompute_rel [where R = accumulatorsUnchanged])
     (blast intro: accumulatorsUnchanged_refl accumulatorsUnchanged_trans longRangeStart_acc
        ewaldSurfaceTerm_acc ewaldChargeCorrection_acc pmeOnCpu_acc plainEwald_acc)+

section \<open>The order of the calls\<close>

lemma grows_refl: "appendClosed Q \<Longrightarrow> grows Q s s"
  by (simp add: grows_def appendClosed_def)

lemma grows_trans: "appendClosed Q \<Longrightarrow> grows Q a b \<Longrightarrow> grows Q b c \<Longrightarrow> grows Q a c"
  by (auto simp add: grows_def appendClosed_def)

lemma grows_exact: "trace s' = trace s @ evs \<Longrightarrow> Q evs \<Longrightarrow> grows Q s s'"
  by (auto simp add: grows_def)

lemma ewaldThreadWork_trace:
  "trace (endState (ewaldThreadWork P n t s)) =
     trace s @ (if 0 \<le> t \<and> nat t < length (ewc_t s)
                then [EwaldLRcorrection t (if t > 0 then clearEwaldThreadOutput (ewc_t s ! nat t) else ewc_t s ! nat t)]
                else [])"
  by (simp add: ewaldThreadWork_def Let_def split: sum.splits prod.splits)

lemma ewaldThreadWork_frame:
  "ewaldThreadWork P n t s = Inr s' \<Longrightarrow> t \<noteq> 0 \<Longrightarrow> ewc_t s' ! 0 = ewc_t s ! 0"
  by (auto simp add: ewaldThreadWork_def Let_def split: sum.splits prod.splits if_splits)

lemma ewaldThreadWork_grows:
  assumes "appendClosed Q" and "\<And>ewc. Q [EwaldLRcorrection t ewc]"
  shows "grows Q s (endState (ewaldThreadWork P n t s))"
  using assms by (intro grows_exact [OF ewaldThreadWork_trace]) (simp add: appendClosed_def)

lemma ompParallelFor_grows:
  assumes ac: "appendClosed Q" and lr: "\<And>t ewc. Q [EwaldLRcorrection t ewc]"
  shows "grows Q s (endState (ompParallelFor (ewaldThreadWork P n) ts s))"
  by (rule ompParallelFor_rel [where R = "grows Q"])
     (blast intro: grows_refl [OF ac] grows_trans [OF ac] ewaldThreadWork_grows [OF ac lr])+

lemma isCleared_clear: "isCleared (clearEwaldThreadOutput ewc)"
  by (simp add: isCleared_def clearEwaldThreadOutput_def)



lemma grows_logEvent: "appendClosed Q \<Longrightarrow> Q [e] \<Longrightarrow> grows Q s s' \<Longrightarrow> grows Q s (logEvent e s')"
  by (auto simp add: grows_def appendClosed_def)

lemma grows_ewc_t [simp]: "grows Q s (s'\<lparr>ewc_t := x\<rparr>) = grows Q s s'"
  by (simp add: grows_def)

lemma ewaldSurfaceTerm_grows:
  assumes ac: "appendClosed Q" and q1: "Q [WallcycleSubStart]" and q2: "Q [WallcycleSubStop]"
    and loop: "haveEwaldSurfaceContribution cfg \<Longrightarrow> grows Q (logEvent WallcycleSubStart s)
       (endState (ompParallelFor (ewaldThreadWork P (nthread_ewc cfg)) sched (logEvent WallcycleSubStart s)))"
  shows "grows Q s (endState (ewaldSurfaceTerm P cfg sched s))"
proof (cases "haveEwaldSurfaceContribution cfg")
  case False
  then show ?thesis by (simp add: ewaldSurfaceTerm_def grows_refl [OF ac])
next
  case True
  let ?s0 = "logEvent WallcycleSubStart s"
  have s0: "grows Q s ?s0" by (rule grows_logEvent [OF ac q1 grows_refl [OF ac]])
  have l: "grows Q s (endState (ompParallelFor (ewaldThreadWork P (nthread_ewc cfg)) sched ?s0))"
    by (rule grows_trans [OF ac s0 loop [OF True]])
  show ?thesis
  proof (cases "ompParallelFor (ewaldThreadWork P (nthread_ewc cfg)) sched ?s0")
    case (Inl x)
    with l True show ?thesis by (simp add: ewaldSurfaceTerm_def)
  next
    case (Inr s1)
    with l have "grows Q s s1" by simp
    with Inr True show ?thesis
      by (auto simp add: ewaldSurfaceTerm_def Let_def intro: grows_logEvent [OF ac q2] split: option.splits)
  qed
qed

lemma ewaldChargeCorrection_trace:
  "trace (ewaldChargeCorrection P E cfg s) =
     trace s @ (if EEL_PME_EWALD E (eeltype cfg) \<and> n_tpi cfg = 0 then [EwaldChargeCorrection] else [])"
  by (simp add: ewaldChargeCorrection_def Let_def split: prod.splits)

lemma reciprocalPme_trace:
  "trace (endState3 (reciprocalPme P vq vlj s)) =
     trace s @ [CloseAfterForceComputationCpu, WallcycleStart, GmxPmeDo, WallcycleStop]"
  by (simp add: reciprocalPme_def pmeOutput_def Let_def split: prod.splits)

lemma pmeOnCpu_grows:
  assumes ac: "appendClosed Q"
    and q1: "Q [CloseAfterForceComputationCpu, WallcycleStart, GmxPmeDo, WallcycleStop]"
    and q2: "Q [GmxPmeCalcEnergy]"
  shows "grows Q s (endState3 (pmeOnCpu P E cfg vq vlj s))"
proof -
  have r: "grows Q s (endState3 (reciprocalPme P vq vlj s))"
    by (rule grows_exact [OF reciprocalPme_trace]) (rule q1)
  have e: "grows Q s s1 \<Longrightarrow> grows Q s (logEvent GmxPmeCalcEnergy (s1\<lparr>collab := x\<rparr>))" for s1 x
    using grows_logEvent [OF ac q2, of s "s1\<lparr>collab := x\<rparr>"] by (simp add: grows_def)
  show ?thesis
  proof (cases "reciprocalPme P vq vlj s")
    case (Inl x)
    with r show ?thesis
      by (auto simp add: pmeOnCpu_def grows_refl [OF ac] intro: e split: prod.splits)
  next
    case (Inr y)
    obtain a b s1 where "y = (a, b, s1)" by (cases y)
    with r Inr show ?thesis
      by (auto simp add: pmeOnCpu_def grows_refl [OF ac] intro: e split: prod.splits)
  qed
qed

lemma plainEwald_trace:
  "trace (snd (snd (plainEwald P E cfg vq vlj s))) =
     trace s @ (if eeltype cfg = Ewald E then [DoEwald] else [])"
  by (simp add: plainEwald_def Let_def split: prod.splits)

lemma longRangeMerge_trace:
  "trace (longRangeMerge P vq vlj s) =
     trace s @ [AddVirialContribution (vir_q (ewc_t s ! 0)), AddVirialContribution (vir_lj (ewc_t s ! 0))]"
  by (simp add: longRangeMerge_def Let_def)

lemma longRangeStart_trace: "trace (longRangeStart s) = trace s"
  by (simp add: longRangeStart_def)

text \<open>The whole function, for a property of logs and a loop that keeps it.\<close>

lemma calculate_grows:
  assumes ac: "appendClosed Q"
    and q: "Q [WallcycleSubStart]" "Q [WallcycleSubStop]"
      "appliesChargeCorrection E cfg \<Longrightarrow> Q [EwaldChargeCorrection]"
      "Q [CloseAfterForceComputationCpu, WallcycleStart, GmxPmeDo, WallcycleStop]"
      "Q [GmxPmeCalcEnergy]" "Q [DoEwald]"
      "\<And>m1 m2. Q [AddVirialContribution m1, AddVirialContribution m2]"
    and loop: "dispatchesLRcorrection E cfg \<Longrightarrow> ewc_t s \<noteq> [] \<Longrightarrow>
       grows Q (logEvent WallcycleSubStart (longRangeStart s))
       (endState (ompParallelFor (ewaldThreadWork P (nthread_ewc cfg)) sched
          (logEvent WallcycleSubStart (longRangeStart s))))"
  shows "grows Q s (endState (calculateLongRangeNonbondeds P E cfg sched s))"
proof (rule calculate_rel [where R = "grows Q"])
  show "grows Q a b \<Longrightarrow> grows Q b c \<Longrightarrow> grows Q a c" for a b c by (rule grows_trans [OF ac])
  show "grows Q s s" for s by (rule grows_refl [OF ac])
  show "grows Q s (longRangeMerge P vq vlj s)" for s vq vlj
    by (rule grows_exact [OF longRangeMerge_trace]) (rule q(7))
  show "grows Q s (endState3 (longRangeCompute P E cfg sched s))" if dlr: "doLongRange E cfg"
  proof (rule longRangeCompute_rel [where R = "grows Q"])
    show "grows Q a b \<Longrightarrow> grows Q b c \<Longrightarrow> grows Q a c" for a b c by (rule grows_trans [OF ac])
    show "grows Q s s" for s by (rule grows_refl [OF ac])
    show "grows Q s (longRangeStart s)"
      by (rule grows_exact [where evs = "[]"]) (use ac in \<open>simp_all add: longRangeStart_trace appendClosed_def\<close>)
    show "grows Q (longRangeStart s) (endState (ewaldSurfaceTerm P cfg sched (longRangeStart s)))"
      if ne: "ewc_t s \<noteq> []" and c: "EEL_PME_EWALD E (eeltype cfg) \<or> EVDW_PME E (vdwtype cfg)"
    proof (rule ewaldSurfaceTerm_grows [OF ac q(1) q(2)])
      assume "haveEwaldSurfaceContribution cfg"
      with dlr c have "dispatchesLRcorrection E cfg" by (simp add: dispatchesLRcorrection_def)
      from loop [OF this ne]
      show "grows Q (logEvent WallcycleSubStart (longRangeStart s))
         (endState (ompParallelFor (ewaldThreadWork P (nthread_ewc cfg)) sched
            (logEvent WallcycleSubStart (longRangeStart s))))" .
    qed
    show "grows Q s (ewaldChargeCorrection P E cfg s)" for s
      by (rule grows_exact [OF ewaldChargeCorrection_trace])
        (use ac q(3) dlr in \<open>simp add: appendClosed_def appliesChargeCorrection_def\<close>)
    show "grows Q s (endState3 (pmeOnCpu P E cfg 0 0 s))" for s
      by (rule pmeOnCpu_grows [OF ac q(4) q(5)])
    show "grows Q s (snd (snd (plainEwald P E cfg vq vlj s)))" for s vq vlj
      by (rule grows_exact [OF plainEwald_trace]) (use ac q(6) in \<open>simp add: appendClosed_def\<close>)
  qed
qed


lemma newEvents_grows: "grows Q s s' \<Longrightarrow> \<exists>evs. trace s' = trace s @ evs \<and> newEvents s s' = evs \<and> Q evs"
  by (auto simp add: grows_def newEvents_def)



section \<open>Per-thread records at dispatch\<close>


section \<open>The load-balancing region is closed before the reciprocal solve\<close>

lemma closedBeforePme_append:
  assumes "closedBeforePme xs" and "closedBeforePme ys"
  shows "closedBeforePme (xs @ ys)"
  unfolding closedBeforePme_def
proof (intro allI impI)
  fix i
  assume i: "i < length (xs @ ys)" and p: "(xs @ ys) ! i = GmxPmeDo"
  show "\<exists>j<i. (xs @ ys) ! j = CloseAfterForceComputationCpu"
  proof (cases "i < length xs")
    case True
    with p have "xs ! i = GmxPmeDo" by (simp add: nth_append)
    with assms(1) True obtain j where "j < i" "xs ! j = CloseAfterForceComputationCpu"
      unfolding closedBeforePme_def by blast
    with True show ?thesis by (intro exI [of _ j]) (simp add: nth_append)
  next
    case False
    with i p have "i - length xs < length ys" "ys ! (i - length xs) = GmxPmeDo"
      by (simp_all add: nth_append)
    with assms(2) obtain j where "j < i - length xs" "ys ! j = CloseAfterForceComputationCpu"
      unfolding closedBeforePme_def by blast
    with False show ?thesis by (intro exI [of _ "length xs + j"]) (auto simp add: nth_append)
  qed
qed

lemma closedBeforePme_none: "GmxPmeDo \<notin> set evs \<Longrightarrow> closedBeforePme evs"
  by (metis closedBeforePme_def nth_mem)

lemma closedBeforePme_pme:
  "closedBeforePme [CloseAfterForceComputationCpu, WallcycleStart, GmxPmeDo, WallcycleStop]"
  unfolding closedBeforePme_def
proof (intro allI impI)
  fix i :: nat
  assume "i < length [CloseAfterForceComputationCpu, WallcycleStart, GmxPmeDo, WallcycleStop :: 'a event]"
    and "[CloseAfterForceComputationCpu, WallcycleStart, GmxPmeDo, WallcycleStop :: 'a event] ! i = GmxPmeDo"
  then have "0 < i" by (cases i) auto
  then show "\<exists>j<i. [CloseAfterForceComputationCpu, WallcycleStart, GmxPmeDo, WallcycleStop :: 'a event] ! j
      = CloseAfterForceComputationCpu"
    by (intro exI [of _ 0]) simp
qed

lemma appendClosed_closedBeforePme: "appendClosed closedBeforePme"
  by (simp add: appendClosed_def closedBeforePme_append closedBeforePme_none)

text \<open>
  Claim C6. In every execution of \<open>calculateLongRangeNonbondeds\<close>, the calls it makes extend
  the log, and every call of \<open>gmx_pme_do\<close> among them comes strictly after a call of
  \<open>ddBalanceRegionHandler.closeAfterForceComputationCpu\<close> made in the same execution.
\<close>

theorem balance_region_closed_before_pme:
  "trace (endState (calculateLongRangeNonbondeds P E cfg sched s))
     = trace s @ newEvents s (endState (calculateLongRangeNonbondeds P E cfg sched s))
   \<and> closedBeforePme (newEvents s (endState (calculateLongRangeNonbondeds P E cfg sched s)))"
proof -
  have "grows closedBeforePme s (endState (calculateLongRangeNonbondeds P E cfg sched s))"
  proof (rule calculate_grows [OF appendClosed_closedBeforePme])
    show "closedBeforePme [CloseAfterForceComputationCpu, WallcycleStart, GmxPmeDo, WallcycleStop]"
      by (rule closedBeforePme_pme)
    show "grows closedBeforePme (logEvent WallcycleSubStart (longRangeStart s))
       (endState (ompParallelFor (ewaldThreadWork P (nthread_ewc cfg)) sched
          (logEvent WallcycleSubStart (longRangeStart s))))"
      by (rule ompParallelFor_grows [OF appendClosed_closedBeforePme]) (simp add: closedBeforePme_none)
  qed (simp_all add: closedBeforePme_none)
  from newEvents_grows [OF this] show ?thesis by auto
qed


section \<open>The merge into the caller's accumulators\<close>

text \<open>
  Claim C1. When the long-range branch is taken and its computation completes with the local
  variables \<open>Vlr_q\<close> and \<open>Vlr_lj\<close> and with \<open>ewaldOutput = fr->ewc_t[0]\<close>, the function
  returns, and in the state it leaves \<open>term[F_COUL_RECIP]\<close> is \<open>Vlr_q + ewaldOutput.Vcorr_q\<close>,
  \<open>term[F_LJ_RECIP]\<close> is \<open>Vlr_lj + ewaldOutput.Vcorr_lj\<close>, the virial accumulator is the one
  the caller passed after \<open>addVirialContribution(ewaldOutput.vir_q)\<close> and then
  \<open>addVirialContribution(ewaldOutput.vir_lj)\<close>, and \<open>dvdl_lin[Coul]\<close> and \<open>dvdl_lin[Vdw]\<close> are
  the values the caller passed plus \<open>ewaldOutput.dvdl[Coul]\<close> and \<open>ewaldOutput.dvdl[Vdw]\<close>.
\<close>

theorem longRange_results_merged:
  assumes "doLongRange E cfg"
    and "longRangeCompute P E cfg sched s = Inr (Vlr_q, Vlr_lj, s1)"
    and "ewaldOutput = ewc_t s1 ! 0"
  shows "\<exists>s2. calculateLongRangeNonbondeds P E cfg sched s = Inr s2
      \<and> enerd_term s2 F_COUL_RECIP = Vlr_q + Vcorr_q ewaldOutput
      \<and> enerd_term s2 F_LJ_RECIP = Vlr_lj + Vcorr_lj ewaldOutput
      \<and> fwv_virial s2 = addVirialContribution P (vir_lj ewaldOutput)
                           (addVirialContribution P (vir_q ewaldOutput) (fwv_virial s))
      \<and> enerd_dvdl_lin s2 Coul = enerd_dvdl_lin s Coul + dvdl ewaldOutput Coul
      \<and> enerd_dvdl_lin s2 Vdw = enerd_dvdl_lin s Vdw + dvdl ewaldOutput Vdw"
proof -
  from longRangeCompute_acc [of s P E cfg sched] assms(2)
  have "accumulatorsUnchanged s s1" by simp
  then have acc: "fwv_virial s1 = fwv_virial s" "enerd_dvdl_lin s1 = enerd_dvdl_lin s"
    by (simp_all add: accumulatorsUnchanged_def)
  have "calculateLongRangeNonbondeds P E cfg sched s = Inr (longRangeMerge P Vlr_q Vlr_lj s1)"
    using assms(1,2) by (simp add: calculateLongRangeNonbondeds_def)
  moreover have "enerd_term (longRangeMerge P Vlr_q Vlr_lj s1) F_COUL_RECIP = Vlr_q + Vcorr_q ewaldOutput"
    and "enerd_term (longRangeMerge P Vlr_q Vlr_lj s1) F_LJ_RECIP = Vlr_lj + Vcorr_lj ewaldOutput"
    and "fwv_virial (longRangeMerge P Vlr_q Vlr_lj s1) = addVirialContribution P (vir_lj ewaldOutput)
                           (addVirialContribution P (vir_q ewaldOutput) (fwv_virial s))"
    and "enerd_dvdl_lin (longRangeMerge P Vlr_q Vlr_lj s1) Coul = enerd_dvdl_lin s Coul + dvdl ewaldOutput Coul"
    and "enerd_dvdl_lin (longRangeMerge P Vlr_q Vlr_lj s1) Vdw = enerd_dvdl_lin s Vdw + dvdl ewaldOutput Vdw"
    by (simp_all add: longRangeMerge_def Let_def assms(3) acc)
  ultimately show ?thesis by blast
qed

section \<open>Fatal errors\<close>

lemma ompParallelFor_append:
  "ompParallelFor body (pre @ t # post) s =
     (case ompParallelFor body pre s of
        Inl e \<Rightarrow> Inl e
      | Inr sa \<Rightarrow> (case body t sa of Inl e \<Rightarrow> Inl e | Inr sb \<Rightarrow> ompParallelFor body post sb))"
  by (induction pre arbitrary: s) (simp_all split: sum.splits)

lemma abort_no_merge:
  assumes "calculateLongRangeNonbondeds P E cfg sched s = Inl (e, s')"
  shows "accumulatorsUnchanged s s'"
proof -
  from assms have "longRangeCompute P E cfg sched s = Inl (e, s')"
    by (auto simp add: calculateLongRangeNonbondeds_def split: if_splits sum.splits prod.splits)
  with longRangeCompute_acc [of s P E cfg sched] show ?thesis by simp
qed

lemma ewaldThreadWork_length:
  "length (ewc_t (endState (ewaldThreadWork P n t s))) = length (ewc_t s)"
  by (simp add: ewaldThreadWork_def Let_def split: sum.splits prod.splits)

lemma ompParallelFor_length:
  "length (ewc_t (endState (ompParallelFor (ewaldThreadWork P n) ts s))) = length (ewc_t s)"
  by (rule ompParallelFor_rel [where R = "\<lambda>a b. length (ewc_t b) = length (ewc_t a)"])
     (simp_all add: ewaldThreadWork_length)

lemma ompParallelFor_frame:
  "ompParallelFor (ewaldThreadWork P n) ts s = Inr sa \<Longrightarrow> 0 \<notin> set ts \<Longrightarrow> ewc_t sa ! 0 = ewc_t s ! 0"
proof (induction ts arbitrary: s)
  case Nil
  then show ?case by simp
next
  case (Cons t ts)
  from Cons.prems(1) obtain s' where w: "ewaldThreadWork P n t s = Inr s'"
    and rest: "ompParallelFor (ewaldThreadWork P n) ts s' = Inr sa"
    by (auto split: sum.splits)
  from Cons.prems(2) have "t \<noteq> 0" "0 \<notin> set ts" by auto
  from Cons.IH [OF rest this(2)] ewaldThreadWork_frame [OF w this(1)] show ?case by simp
qed

lemma loop_abort_propagates:
  assumes "dispatchesLRcorrection E cfg" and "ewc_t s \<noteq> []"
    and "ompParallelFor (ewaldThreadWork P (nthread_ewc cfg)) sched
           (logEvent WallcycleSubStart (longRangeStart s)) = Inl x"
  shows "calculateLongRangeNonbondeds P E cfg sched s = Inl x"
proof -
  from assms(1,3) have "ewaldSurfaceTerm P cfg sched (longRangeStart s) = Inl x"
    by (simp add: ewaldSurfaceTerm_def dispatchesLRcorrection_def)
  with assms(1,2) show ?thesis
    by (simp add: calculateLongRangeNonbondeds_def longRangeCompute_def dispatchesLRcorrection_def)
qed

lemma raise_stops_thread:
  assumes "0 \<le> t" and "nat t < length (ewc_t sa)"
    and "t = 0 \<longrightarrow> isCleared (ewc_t sa ! 0)"
    and "ewald_LRcorrection P n t (fwv_force sa) 0 0 = Inl ex"
  shows "\<exists>sb. ewaldThreadWork P n t sa = Inl (ExceptionAsFatalError ex, sb)"
proof -
  let ?ewc = "if t > 0 then clearEwaldThreadOutput (ewc_t sa ! nat t) else ewc_t sa ! nat t"
  from assms(1,3) have "isCleared ?ewc" by (auto simp add: isCleared_clear)
  then have z: "Vcorr_q ?ewc = 0" "dvdl ?ewc Coul = 0" by (simp_all add: isCleared_def)
  show ?thesis
  proof (cases "t > 0")
    case True
    with assms z show ?thesis by (simp add: ewaldThreadWork_def Let_def)
  next
    case False
    with assms z show ?thesis by (simp add: ewaldThreadWork_def Let_def)
  qed
qed

lemma some_thread_raises:
  assumes "t \<in> set ts" and "\<forall>t' \<in> set ts. 0 \<le> t' \<and> nat t' < length (ewc_t s)"
    and "\<forall>f v d. \<exists>ex. ewald_LRcorrection P n t f v d = Inl ex"
  shows "\<exists>ex s'. ompParallelFor (ewaldThreadWork P n) ts s = Inl (ExceptionAsFatalError ex, s')"
  using assms(1,2)
proof (induction ts arbitrary: s)
  case Nil
  then show ?case by simp
next
  case (Cons t' ts)
  from Cons.prems(2) have r: "0 \<le> t'" "nat t' < length (ewc_t s)" by simp_all
  show ?case
  proof (cases "ewaldThreadWork P n t' s")
    case (Inl x)
    with r have "\<exists>ex s'. x = (ExceptionAsFatalError ex, s')"
      by (auto simp add: ewaldThreadWork_def Let_def split: sum.splits prod.splits)
    with Inl show ?thesis by auto
  next
    case (Inr s')
    have "t' \<noteq> t"
    proof
      assume "t' = t"
      with Inr r assms(3) show False
        by (auto simp add: ewaldThreadWork_def Let_def split: sum.splits prod.splits)
          (metis Inl_Inr_False)+
    qed
    with Cons.prems(1) have t: "t \<in> set ts" by auto
    from ewaldThreadWork_length [of P n t' s] Inr have "length (ewc_t s') = length (ewc_t s)" by simp
    with Cons.prems(2) have "\<forall>t' \<in> set ts. 0 \<le> t' \<and> nat t' < length (ewc_t s')" by simp
    from Cons.IH [OF t this] Inr show ?thesis by simp
  qed
qed


lemma isSchedule_range:
  "isSchedule n sched \<Longrightarrow> t \<in> set sched \<Longrightarrow> 0 \<le> t \<and> t < n"
  by (auto simp add: isSchedule_def)

text \<open>
  Claim C7. Whenever \<open>calculateLongRangeNonbondeds\<close> stops the run, the caller's virial,
  energy terms and \<open>dvdl_lin\<close> are as they were passed: nothing has been merged. If, in a
  run that reaches the parallel loop, \<open>ewald_LRcorrection\<close> raises an exception \<open>ex\<close> when it
  is called for a thread \<open>t\<close> (with the force buffer as the iterations \<open>pre\<close> that ran before
  it left it, and with the cleared \<open>Vcorr_q\<close> and \<open>dvdl[Coul]\<close> of the thread's record), the
  whole call stops with the fatal error made from \<open>ex\<close>. If \<open>ewald_LRcorrection\<close> raises for
  a thread \<open>u\<close> whatever it is given, then in whatever order the iterations run the whole
  call stops with the fatal error made from an exception. If \<open>gmx_pme_do\<close> is reached and
  returns a status other than 0, the whole call stops with the fatal error of that status.
  In each case nothing has been merged.
\<close>

theorem fatal_errors_abort_before_merge:
  "(\<forall>e s'. calculateLongRangeNonbondeds P E cfg sched s = Inl (e, s') \<longrightarrow> accumulatorsUnchanged s s')
   \<and> (dispatchesLRcorrection E cfg \<and> isSchedule (nthread_ewc cfg) sched
       \<and> nat (nthread_ewc cfg) \<le> length (ewc_t s) \<and> sched = pre @ t # post
       \<and> ompParallelFor (ewaldThreadWork P (nthread_ewc cfg)) pre
            (logEvent WallcycleSubStart (longRangeStart s)) = Inr sa
       \<and> ewald_LRcorrection P (nthread_ewc cfg) t (fwv_force sa) 0 0 = Inl ex
      \<longrightarrow> (\<exists>s'. calculateLongRangeNonbondeds P E cfg sched s = Inl (ExceptionAsFatalError ex, s')
                \<and> accumulatorsUnchanged s s'))
   \<and> (dispatchesLRcorrection E cfg \<and> isSchedule (nthread_ewc cfg) sched
       \<and> nat (nthread_ewc cfg) \<le> length (ewc_t s) \<and> u \<in> set sched
       \<and> (\<forall>f v d. \<exists>ex'. ewald_LRcorrection P (nthread_ewc cfg) u f v d = Inl ex')
      \<longrightarrow> (\<exists>ex' s'. calculateLongRangeNonbondeds P E cfg sched s = Inl (ExceptionAsFatalError ex', s')
                \<and> accumulatorsUnchanged s s'))
   \<and> (doLongRange E cfg \<and> ewc_t s \<noteq> []
       \<and> (EEL_PME_EWALD E (eeltype cfg) \<or> EVDW_PME E (vdwtype cfg))
       \<and> computePmeOnCpu E cfg \<and> (assertionsEnabled cfg \<longrightarrow> 0 \<le> n_tpi cfg)
       \<and> (n_tpi cfg = 0 \<or> stateChanged cfg)
       \<and> ewaldSurfaceTerm P cfg sched (longRangeStart s) = Inr s1
       \<and> s2 = logEvent GmxPmeDo (logEvent WallcycleStart (logEvent CloseAfterForceComputationCpu
                 (ewaldChargeCorrection P E cfg s1)))
       \<and> gmx_pme_do P (pmeInput 0 0 s2) = (status, io) \<and> status \<noteq> 0
      \<longrightarrow> calculateLongRangeNonbondeds P E cfg sched s
            = Inl (ReciprocalPmeError status, logEvent WallcycleStop (pmeOutput io s2))
          \<and> accumulatorsUnchanged s (logEvent WallcycleStop (pmeOutput io s2)))"
proof (intro conjI impI allI)
  fix e s'
  assume "calculateLongRangeNonbondeds P E cfg sched s = Inl (e, s')"
  then show "accumulatorsUnchanged s s'" by (rule abort_no_merge)
next
  let ?n = "nthread_ewc cfg"
  let ?s0 = "logEvent WallcycleSubStart (longRangeStart s)"
  assume h: "dispatchesLRcorrection E cfg \<and> isSchedule ?n sched
       \<and> nat ?n \<le> length (ewc_t s) \<and> sched = pre @ t # post
       \<and> ompParallelFor (ewaldThreadWork P ?n) pre ?s0 = Inr sa
       \<and> ewald_LRcorrection P ?n t (fwv_force sa) 0 0 = Inl ex"
  then have d: "dispatchesLRcorrection E cfg" and sch: "isSchedule ?n sched"
    and len: "nat ?n \<le> length (ewc_t s)" and sched: "sched = pre @ t # post"
    and pre: "ompParallelFor (ewaldThreadWork P ?n) pre ?s0 = Inr sa"
    and raise: "ewald_LRcorrection P ?n t (fwv_force sa) 0 0 = Inl ex"
    by blast+
  from isSchedule_range [OF sch, of t] sched have t: "0 \<le> t" "t < ?n" by simp_all
  with len have ne: "ewc_t s \<noteq> []" by auto
  from ompParallelFor_length [of P ?n pre ?s0] pre
  have "length (ewc_t sa) = length (ewc_t s)" by (simp add: longRangeStart_def)
  with t len have inr: "nat t < length (ewc_t sa)" by simp
  have cl: "t = 0 \<longrightarrow> isCleared (ewc_t sa ! 0)"
  proof
    assume "t = 0"
    with sch sched have "0 \<notin> set pre" by (simp add: isSchedule_def)
    from ompParallelFor_frame [OF pre this] ne show "isCleared (ewc_t sa ! 0)"
      by (simp add: longRangeStart_def isCleared_clear)
  qed
  from raise_stops_thread [OF t(1) inr cl raise]
  obtain sb where "ewaldThreadWork P ?n t sa = Inl (ExceptionAsFatalError ex, sb)" ..
  with pre sched have "ompParallelFor (ewaldThreadWork P ?n) sched ?s0 = Inl (ExceptionAsFatalError ex, sb)"
    by (simp add: ompParallelFor_append)
  from loop_abort_propagates [OF d ne this]
  have c: "calculateLongRangeNonbondeds P E cfg sched s = Inl (ExceptionAsFatalError ex, sb)" .
  from c abort_no_merge [OF c]
  show "\<exists>s'. calculateLongRangeNonbondeds P E cfg sched s = Inl (ExceptionAsFatalError ex, s')
                \<and> accumulatorsUnchanged s s'"
    by blast
next
  let ?n = "nthread_ewc cfg"
  let ?s0 = "logEvent WallcycleSubStart (longRangeStart s)"
  assume h: "dispatchesLRcorrection E cfg \<and> isSchedule ?n sched
       \<and> nat ?n \<le> length (ewc_t s) \<and> u \<in> set sched
       \<and> (\<forall>f v d. \<exists>ex'. ewald_LRcorrection P ?n u f v d = Inl ex')"
  then have d: "dispatchesLRcorrection E cfg" and sch: "isSchedule ?n sched"
    and len: "nat ?n \<le> length (ewc_t s)" and u: "u \<in> set sched"
    and raise: "\<forall>f v d. \<exists>ex'. ewald_LRcorrection P ?n u f v d = Inl ex'"
    by blast+
  from isSchedule_range [OF sch u] len have ne: "ewc_t s \<noteq> []" by auto
  have "\<forall>t' \<in> set sched. 0 \<le> t' \<and> nat t' < length (ewc_t ?s0)"
    using isSchedule_range [OF sch] len by (fastforce simp add: longRangeStart_def)
  from some_thread_raises [OF u this raise]
  obtain ex' sb where "ompParallelFor (ewaldThreadWork P ?n) sched ?s0 = Inl (ExceptionAsFatalError ex', sb)"
    by blast
  from loop_abort_propagates [OF d ne this]
  have c: "calculateLongRangeNonbondeds P E cfg sched s = Inl (ExceptionAsFatalError ex', sb)" .
  from c abort_no_merge [OF c]
  show "\<exists>ex' s'. calculateLongRangeNonbondeds P E cfg sched s = Inl (ExceptionAsFatalError ex', s')
                \<and> accumulatorsUnchanged s s'"
    by blast
next
  assume h: "doLongRange E cfg \<and> ewc_t s \<noteq> []
       \<and> (EEL_PME_EWALD E (eeltype cfg) \<or> EVDW_PME E (vdwtype cfg))
       \<and> computePmeOnCpu E cfg \<and> (assertionsEnabled cfg \<longrightarrow> 0 \<le> n_tpi cfg)
       \<and> (n_tpi cfg = 0 \<or> stateChanged cfg)
       \<and> ewaldSurfaceTerm P cfg sched (longRangeStart s) = Inr s1
       \<and> s2 = logEvent GmxPmeDo (logEvent WallcycleStart (logEvent CloseAfterForceComputationCpu
                 (ewaldChargeCorrection P E cfg s1)))
       \<and> gmx_pme_do P (pmeInput 0 0 s2) = (status, io) \<and> status \<noteq> 0"
  then have s2: "s2 = logEvent GmxPmeDo (logEvent WallcycleStart (logEvent CloseAfterForceComputationCpu
                 (ewaldChargeCorrection P E cfg s1)))"
    and pm: "gmx_pme_do P (pmeInput 0 0 s2) = (status, io)" and st: "status \<noteq> 0"
    by blast+
  have "reciprocalPme P 0 0 (ewaldChargeCorrection P E cfg s1)
      = Inl (ReciprocalPmeError status, logEvent WallcycleStop (pmeOutput io s2))"
    unfolding reciprocalPme_def Let_def s2 [symmetric] pm using st by simp
  with h have "pmeOnCpu P E cfg 0 0 (ewaldChargeCorrection P E cfg s1)
      = Inl (ReciprocalPmeError status, logEvent WallcycleStop (pmeOutput io s2))"
    by (auto simp add: pmeOnCpu_def)
  with h show c: "calculateLongRangeNonbondeds P E cfg sched s
            = Inl (ReciprocalPmeError status, logEvent WallcycleStop (pmeOutput io s2))"
    by (simp add: calculateLongRangeNonbondeds_def longRangeCompute_def)
  then show "accumulatorsUnchanged s (logEvent WallcycleStop (pmeOutput io s2))" by (rule abort_no_merge)
qed


section \<open>When the surface correction is dispatched\<close>










section \<open>The worked instance\<close>

lemmas instance_defs =
  exampleEnums_def exampleConfig_def exampleCollaborators_def exampleState_def exampleRecord_def
  raisingCollaborators_def failingPmeCollaborators_def noNonbondedConfig_def
  noSurfaceConfig_def ljPmeConfig_def

lemmas step_defs =
  calculateLongRangeNonbondeds_def longRangeCompute_def longRangeStart_def longRangeMerge_def
  plainEwald_def pmeOnCpu_def reciprocalPme_def pmeInput_def pmeOutput_def
  ewaldChargeCorrection_def ewaldSurfaceTerm_def ewaldThreadWork_def
  doLongRange_def computePmeOnCpu_def dispatchesLRcorrection_def
  reduceEwaldThreadOuput_def reduceLoop.simps accumulateThread_def clearEwaldThreadOutput_def
  clear_mat_def logEvent_def Let_def


lemma example_log:
  "newEvents exampleState (endState (calculateLongRangeNonbondeds exampleCollaborators exampleEnums exampleConfig [1, 0] exampleState))
   = [WallcycleSubStart,
      EwaldLRcorrection 1 (clearEwaldThreadOutput (exampleRecord 2)),
      EwaldLRcorrection 0 (clearEwaldThreadOutput (exampleRecord 1)),
      WallcycleSubStop, EwaldChargeCorrection,
      CloseAfterForceComputationCpu, WallcycleStart, GmxPmeDo, WallcycleStop,
      AddVirialContribution ((1, 0, 0), (0, 1, 0), (0, 0, 1)),
      AddVirialContribution ((0, 0, 2), (0, 0, 0), (2, 0, 0))]"
  by (simp add: step_defs instance_defs newEvents_def)



theorem balance_region_closed_before_pme_witness:
  "7 < length (newEvents exampleState (endState (calculateLongRangeNonbondeds
                exampleCollaborators exampleEnums exampleConfig [1, 0] exampleState)))
   \<and> newEvents exampleState (endState (calculateLongRangeNonbondeds
                exampleCollaborators exampleEnums exampleConfig [1, 0] exampleState)) ! 7 = GmxPmeDo
   \<and> (\<exists>j<7. newEvents exampleState (endState (calculateLongRangeNonbondeds
                exampleCollaborators exampleEnums exampleConfig [1, 0] exampleState)) ! j
              = CloseAfterForceComputationCpu)"
proof -
  let ?evs = "newEvents exampleState (endState (calculateLongRangeNonbondeds
                exampleCollaborators exampleEnums exampleConfig [1, 0] exampleState))"
  have h: "7 < length ?evs" "?evs ! 7 = GmxPmeDo" by (simp_all add: example_log)
  from balance_region_closed_before_pme
    [of exampleCollaborators exampleEnums exampleConfig "[1, 0]" exampleState]
  have "closedBeforePme ?evs" by simp
  with h show ?thesis unfolding closedBeforePme_def by blast
qed

theorem longRange_results_merged_witness:
  "doLongRange exampleEnums exampleConfig
   \<and> (\<exists>s1. longRangeCompute exampleCollaborators exampleEnums exampleConfig [1, 0] exampleState = Inr (11, 13, s1)
          \<and> Vcorr_q (ewc_t s1 ! 0) = 8 \<and> Vcorr_lj (ewc_t s1 ! 0) = 0
          \<and> dvdl (ewc_t s1 ! 0) Coul = 5 \<and> dvdl (ewc_t s1 ! 0) Vdw = 0)
   \<and> (\<exists>s2. calculateLongRangeNonbondeds exampleCollaborators exampleEnums exampleConfig [1, 0] exampleState = Inr s2
          \<and> enerd_term s2 F_COUL_RECIP = 19 \<and> enerd_term s2 F_LJ_RECIP = 13
          \<and> fwv_virial s2 = ((1, 0, 2), (0, 1, 0), (2, 0, 1))
          \<and> enerd_dvdl_lin s2 Coul = 205 \<and> enerd_dvdl_lin s2 Vdw = 200)"
proof -
  have h1: "doLongRange exampleEnums exampleConfig"
    by (simp add: doLongRange_def computePmeOnCpu_def instance_defs)
  define s1 where "s1 = endState3 (longRangeCompute exampleCollaborators exampleEnums exampleConfig [1, 0] exampleState)"
  have h2: "longRangeCompute exampleCollaborators exampleEnums exampleConfig [1, 0] exampleState = Inr (11, 13, s1)"
    unfolding s1_def by (simp add: step_defs instance_defs)
  have out: "Vcorr_q (ewc_t s1 ! 0) = 8" "Vcorr_lj (ewc_t s1 ! 0) = 0"
    "dvdl (ewc_t s1 ! 0) Coul = 5" "dvdl (ewc_t s1 ! 0) Vdw = 0"
    "vir_q (ewc_t s1 ! 0) = ((1, 0, 0), (0, 1, 0), (0, 0, 1))"
    "vir_lj (ewc_t s1 ! 0) = ((0, 0, 2), (0, 0, 0), (2, 0, 0))"
    unfolding s1_def by (simp_all add: step_defs instance_defs)
  have acc: "fwv_virial exampleState = clear_mat" "enerd_dvdl_lin exampleState Coul = 200"
    "enerd_dvdl_lin exampleState Vdw = 200" "addVirialContribution exampleCollaborators = (\<lambda>v w. m_add w v)"
    by (simp_all add: instance_defs)
  from longRange_results_merged [OF h1 h2 refl]
  have "\<exists>s2. calculateLongRangeNonbondeds exampleCollaborators exampleEnums exampleConfig [1, 0] exampleState = Inr s2
          \<and> enerd_term s2 F_COUL_RECIP = 19 \<and> enerd_term s2 F_LJ_RECIP = 13
          \<and> fwv_virial s2 = ((1, 0, 2), (0, 1, 0), (2, 0, 1))
          \<and> enerd_dvdl_lin s2 Coul = 205 \<and> enerd_dvdl_lin s2 Vdw = 200"
    by (simp add: out acc clear_mat_def)
  with h1 h2 out show ?thesis by blast
qed


lemma example_schedule01: "isSchedule (nthread_ewc exampleConfig) [0, 1]"
  by (auto simp add: isSchedule_def exampleConfig_def upto.simps)

theorem fatal_errors_abort_before_merge_witness:
  "(\<exists>sa. dispatchesLRcorrection exampleEnums exampleConfig
       \<and> isSchedule (nthread_ewc exampleConfig) [0, 1]
       \<and> nat (nthread_ewc exampleConfig) \<le> length (ewc_t exampleState)
       \<and> ompParallelFor (ewaldThreadWork raisingCollaborators (nthread_ewc exampleConfig)) [0]
            (logEvent WallcycleSubStart (longRangeStart exampleState)) = Inr sa
       \<and> ewald_LRcorrection raisingCollaborators (nthread_ewc exampleConfig) 1 (fwv_force sa) 0 0
            = Inl ''bad exclusion''
       \<and> (\<forall>f v d. \<exists>ex'. ewald_LRcorrection raisingCollaborators (nthread_ewc exampleConfig) 1 f v d = Inl ex')
       \<and> (\<exists>s'. calculateLongRangeNonbondeds raisingCollaborators exampleEnums exampleConfig [0, 1] exampleState
                  = Inl (ExceptionAsFatalError ''bad exclusion'', s')
               \<and> accumulatorsUnchanged exampleState s'))
   \<and> (\<exists>s1 s2 io. doLongRange exampleEnums exampleConfig \<and> ewc_t exampleState \<noteq> []
       \<and> (EEL_PME_EWALD exampleEnums (eeltype exampleConfig) \<or> EVDW_PME exampleEnums (vdwtype exampleConfig))
       \<and> computePmeOnCpu exampleEnums exampleConfig
       \<and> assertionsEnabled exampleConfig \<and> 0 \<le> n_tpi exampleConfig
       \<and> (n_tpi exampleConfig = 0 \<or> stateChanged exampleConfig)
       \<and> ewaldSurfaceTerm failingPmeCollaborators exampleConfig [0, 1] (longRangeStart exampleState) = Inr s1
       \<and> s2 = logEvent GmxPmeDo (logEvent WallcycleStart (logEvent CloseAfterForceComputationCpu
                 (ewaldChargeCorrection failingPmeCollaborators exampleEnums exampleConfig s1)))
       \<and> gmx_pme_do failingPmeCollaborators (pmeInput 0 0 s2) = (3, io) \<and> (3::int) \<noteq> 0
       \<and> calculateLongRangeNonbondeds failingPmeCollaborators exampleEnums exampleConfig [0, 1] exampleState
            = Inl (ReciprocalPmeError 3, logEvent WallcycleStop (pmeOutput io s2))
       \<and> accumulatorsUnchanged exampleState (logEvent WallcycleStop (pmeOutput io s2)))"
proof (rule conjI)
  let ?s0 = "logEvent WallcycleSubStart (longRangeStart exampleState)"
  let ?n = "nthread_ewc exampleConfig"
  define sa where "sa = endState (ompParallelFor (ewaldThreadWork raisingCollaborators ?n) [0] ?s0)"
  have a: "dispatchesLRcorrection exampleEnums exampleConfig"
    "nat ?n \<le> length (ewc_t exampleState)" "[0, 1] = [0] @ 1 # ([] :: int list)" "(1::int) \<in> set [0, 1]"
    by (simp_all add: dispatchesLRcorrection_def doLongRange_def computePmeOnCpu_def instance_defs)
  have b: "ompParallelFor (ewaldThreadWork raisingCollaborators ?n) [0] ?s0 = Inr sa"
    unfolding sa_def by (simp add: step_defs instance_defs)
  have c: "ewald_LRcorrection raisingCollaborators ?n 1 (fwv_force sa) 0 0 = Inl ''bad exclusion''"
    by (simp add: raisingCollaborators_def)
  have d: "\<forall>f v d. \<exists>ex'. ewald_LRcorrection raisingCollaborators ?n 1 f v d = Inl ex'"
    by (simp add: raisingCollaborators_def)
  note inst = fatal_errors_abort_before_merge
    [where P = raisingCollaborators and E = exampleEnums and cfg = exampleConfig and sched = "[0, 1]"
       and s = exampleState and pre = "[0]" and t = 1 and post = "[]" and sa = sa
       and ex = "''bad exclusion''" and u = 1]
  from inst a b c example_schedule01
  have 1: "\<exists>s'. calculateLongRangeNonbondeds raisingCollaborators exampleEnums exampleConfig [0, 1] exampleState
                  = Inl (ExceptionAsFatalError ''bad exclusion'', s')
               \<and> accumulatorsUnchanged exampleState s'"
    by blast
  from inst a d example_schedule01
  have 2: "\<exists>ex' s'. calculateLongRangeNonbondeds raisingCollaborators exampleEnums exampleConfig [0, 1] exampleState
                  = Inl (ExceptionAsFatalError ex', s')
               \<and> accumulatorsUnchanged exampleState s'"
    by blast
  from a b c d 1 2 example_schedule01
  show "\<exists>sa. dispatchesLRcorrection exampleEnums exampleConfig
       \<and> isSchedule (nthread_ewc exampleConfig) [0, 1]
       \<and> nat (nthread_ewc exampleConfig) \<le> length (ewc_t exampleState)
       \<and> ompParallelFor (ewaldThreadWork raisingCollaborators (nthread_ewc exampleConfig)) [0]
            (logEvent WallcycleSubStart (longRangeStart exampleState)) = Inr sa
       \<and> ewald_LRcorrection raisingCollaborators (nthread_ewc exampleConfig) 1 (fwv_force sa) 0 0
            = Inl ''bad exclusion''
       \<and> (\<forall>f v d. \<exists>ex'. ewald_LRcorrection raisingCollaborators (nthread_ewc exampleConfig) 1 f v d = Inl ex')
       \<and> (\<exists>s'. calculateLongRangeNonbondeds raisingCollaborators exampleEnums exampleConfig [0, 1] exampleState
                  = Inl (ExceptionAsFatalError ''bad exclusion'', s')
               \<and> accumulatorsUnchanged exampleState s')"
    by blast
next
  define s1 where "s1 = endState (ewaldSurfaceTerm failingPmeCollaborators exampleConfig [0, 1] (longRangeStart exampleState))"
  define s2 where "s2 = logEvent GmxPmeDo (logEvent WallcycleStart (logEvent CloseAfterForceComputationCpu
                 (ewaldChargeCorrection failingPmeCollaborators exampleEnums exampleConfig s1)))"
  define io where "io = pmeInput (0::int) 0 s2"
  have a: "doLongRange exampleEnums exampleConfig" "ewc_t exampleState \<noteq> []"
    "EEL_PME_EWALD exampleEnums (eeltype exampleConfig) \<or> EVDW_PME exampleEnums (vdwtype exampleConfig)"
    "computePmeOnCpu exampleEnums exampleConfig" "assertionsEnabled exampleConfig" "0 \<le> n_tpi exampleConfig"
    "n_tpi exampleConfig = 0 \<or> stateChanged exampleConfig"
    by (simp_all add: doLongRange_def computePmeOnCpu_def instance_defs)
  have b: "ewaldSurfaceTerm failingPmeCollaborators exampleConfig [0, 1] (longRangeStart exampleState) = Inr s1"
    unfolding s1_def by (simp add: step_defs instance_defs)
  have c: "gmx_pme_do failingPmeCollaborators (pmeInput 0 0 s2) = (3, io)" "(3::int) \<noteq> 0"
    unfolding io_def by (simp_all add: failingPmeCollaborators_def)
  from fatal_errors_abort_before_merge
    [where P = failingPmeCollaborators and E = exampleEnums and cfg = exampleConfig and sched = "[0, 1]"
       and s = exampleState and ?s1.0 = s1 and ?s2.0 = s2 and io = io and status = 3]
    a b c s2_def
  have "calculateLongRangeNonbondeds failingPmeCollaborators exampleEnums exampleConfig [0, 1] exampleState
            = Inl (ReciprocalPmeError 3, logEvent WallcycleStop (pmeOutput io s2))
       \<and> accumulatorsUnchanged exampleState (logEvent WallcycleStop (pmeOutput io s2))"
    by blast
  with a b c s2_def show "\<exists>s1 s2 io. doLongRange exampleEnums exampleConfig \<and> ewc_t exampleState \<noteq> []
       \<and> (EEL_PME_EWALD exampleEnums (eeltype exampleConfig) \<or> EVDW_PME exampleEnums (vdwtype exampleConfig))
       \<and> computePmeOnCpu exampleEnums exampleConfig
       \<and> assertionsEnabled exampleConfig \<and> 0 \<le> n_tpi exampleConfig
       \<and> (n_tpi exampleConfig = 0 \<or> stateChanged exampleConfig)
       \<and> ewaldSurfaceTerm failingPmeCollaborators exampleConfig [0, 1] (longRangeStart exampleState) = Inr s1
       \<and> s2 = logEvent GmxPmeDo (logEvent WallcycleStart (logEvent CloseAfterForceComputationCpu
                 (ewaldChargeCorrection failingPmeCollaborators exampleEnums exampleConfig s1)))
       \<and> gmx_pme_do failingPmeCollaborators (pmeInput 0 0 s2) = (3, io) \<and> (3::int) \<noteq> 0
       \<and> calculateLongRangeNonbondeds failingPmeCollaborators exampleEnums exampleConfig [0, 1] exampleState
            = Inl (ReciprocalPmeError 3, logEvent WallcycleStop (pmeOutput io s2))
       \<and> accumulatorsUnchanged exampleState (logEvent WallcycleStop (pmeOutput io s2))"
    by blast
qed



end
